theory Spec2Isabelle
  imports Complex_Main
begin

section \<open>The document pipeline: data model\<close>

text \<open>
  The pipeline moves an e-mail with attachments through ingestion, text extraction (OCR)
  and classification; a reconciler (the event-pipeline service) writes every stage's
  envelope into the document store. The definitions below follow
  \<^verbatim>\<open>server/src/types.ts\<close>, the two Mongoose schemas, and the four services.

  Conventions. Text is \<open>string\<close>, that is a list of 8-bit characters. A JavaScript value
  that may be \<^verbatim>\<open>undefined\<close> or \<^verbatim>\<open>null\<close> is an \<open>option\<close>. The document store,
  the cache and the message channel are taken to be reachable: a call to one of them
  returns. What an operation writes to the cache and the channel is returned as a list
  of effects, in the order of the calls. Wall-clock fields maintained by the store
  library (\<^verbatim>\<open>timestamp\<close>, \<^verbatim>\<open>createdAt\<close>, \<^verbatim>\<open>updatedAt\<close>) are not part of the state.
\<close>

text \<open>A parsed JSON value, as \<^verbatim>\<open>JSON.parse\<close> returns it. An object keeps its members in
  the order of the text. A number is an exact rational: the rounding of the runtime's
  doubles, and a literal beyond their range, are outside the model.\<close>

datatype json =
    JNull
  | JBool bool
  | JNumber rat
  | JString string
  | JArray "json list"
  | JObject "(string \<times> json) list"

text \<open>\<^verbatim>\<open>interface Attachment\<close> of \<^verbatim>\<open>types.ts\<close>. The fields \<^verbatim>\<open>classification\<close> and
  \<^verbatim>\<open>confidence\<close> are declared \<^verbatim>\<open>string\<close> and \<^verbatim>\<open>number\<close>, but the classification
  stage assigns them members of a parsed JSON value without a check, so here they hold
  any JSON value.\<close>

record attachment =
  filename :: "string option"
  content_type :: string
  url :: string
  text' :: "string option"
  classification :: "json option"
  confidence :: "json option"

text \<open>The \<^verbatim>\<open>metadata\<close> object shared by \<^verbatim>\<open>IngestionObject\<close>, \<^verbatim>\<open>OcrObject\<close>,
  \<^verbatim>\<open>ClassificationObject\<close> and \<^verbatim>\<open>AnalysisObject\<close>, which are the same interface four
  times. The attachment list is always present, as the interface declares it; where
  ingestion guards against a missing list (\<^verbatim>\<open>attachments?.length\<close>, \<^verbatim>\<open>attachments || []\<close>)
  a missing list behaves as the empty one.\<close>

record metadata_fields =
  subject :: string
  sender :: string
  body :: string
  timestamp :: nat
  id' :: string
  attachments :: "attachment list"
  submission_id :: string

record pipeline_object =
  metadata :: metadata_fields

text \<open>\<^verbatim>\<open>interface Event\<close>: the envelope on the common channel.\<close>

record event =
  event_id :: string
  message :: string
  data :: pipeline_object

text \<open>What a stage writes to the cache and to the channel.\<close>

datatype payload = Envelope event | Message pipeline_object

datatype effect =
    Redis_set string event "nat option"
  | Publish string payload

datatype error =
    ValidationError
  | CastError
  | InternalServerErrorException string

section \<open>The world outside the services\<close>

text \<open>How a call to an external engine ends: it settles after some milliseconds, resolved
  with a text or rejected with an error message, or it never settles.\<close>

datatype settled = Resolved string | Rejected string

datatype engine_run = Settles nat settled | Never

text \<open>How a call to the classification engine (\<^verbatim>\<open>generateContent\<close>) ends: a response,
  whose \<^verbatim>\<open>text\<close> may be missing, a rejection, or no answer at all.\<close>

datatype genai_run = Reply "string option" | Fails string | Hangs

text \<open>The world outside the services. Each engine is asked with the position of the
  attachment in the submission and the argument of the call, so two calls with equal
  arguments may end differently. \<open>download_and_recognize\<close> is \<^verbatim>\<open>axios.get\<close> followed by
  \<^verbatim>\<open>Tesseract.recognize\<close>; \<open>download_and_pdfParse\<close> is \<^verbatim>\<open>axios.get\<close> followed by
  \<^verbatim>\<open>pdfParse\<close>; \<open>JSON_parse\<close> is the runtime's \<^verbatim>\<open>JSON.parse\<close>, \<open>None\<close> when it throws
  a \<^verbatim>\<open>SyntaxError\<close>. The last two fields belong to the store library: what the casters of
  the schema types \<^verbatim>\<open>Number\<close> and \<^verbatim>\<open>String\<close> make of a value that is neither \<^verbatim>\<open>null\<close> nor
  already of the type (a numeric string, a boolean, an array, an object). The result is
  \<open>None\<close> when the caster throws, \<open>Some None\<close> when it yields \<^verbatim>\<open>null\<close>, and otherwise the
  number or the string.\<close>

record env =
  download_and_recognize :: "nat \<Rightarrow> string \<Rightarrow> engine_run"
  download_and_pdfParse :: "nat \<Rightarrow> string \<Rightarrow> engine_run"
  generateContent :: "nat \<Rightarrow> string \<Rightarrow> genai_run"
  JSON_parse :: "string \<Rightarrow> json option"
  cast_to_Number :: "json \<Rightarrow> rat option option"
  cast_to_String :: "json \<Rightarrow> string option option"

section \<open>The document store\<close>

text \<open>Two collections. A document has the \<^verbatim>\<open>_id\<close> the store gave it; the schema of a
  submission keeps \<^verbatim>\<open>sender\<close>, \<^verbatim>\<open>body\<close>, \<^verbatim>\<open>id\<close>, \<^verbatim>\<open>attachments\<close> (an \<^verbatim>\<open>ObjectId\<close>,
  default \<^verbatim>\<open>null\<close>) and \<^verbatim>\<open>status\<close>. The schema declares no index on \<^verbatim>\<open>id\<close>.\<close>

type_synonym object_id = nat

record submission_doc =
  sub_oid :: object_id
  sub_sender :: string
  sub_body :: string
  sub_id :: string
  sub_attachments :: "object_id option"
  sub_status :: string

record attachment_doc =
  att_oid :: object_id
  att_attachments :: "attachment list"

record store =
  submissions :: "submission_doc list"
  attachment_docs :: "attachment_doc list"
  next_oid :: object_id

definition empty_store :: store where
  "empty_store = \<lparr>submissions = [], attachment_docs = [], next_oid = 0\<rparr>"

text \<open>\<^verbatim>\<open>updateOne\<close> changes the first document that matches the filter and does nothing
  when none matches; \<^verbatim>\<open>findOne\<close> returns the first match or \<^verbatim>\<open>null\<close>.\<close>

fun update_first :: "('a \<Rightarrow> bool) \<Rightarrow> ('a \<Rightarrow> 'a) \<Rightarrow> 'a list \<Rightarrow> 'a list" where
  "update_first p f [] = []"
| "update_first p f (x # xs) = (if p x then f x # xs else x # update_first p f xs)"

definition submission_findOne :: "string \<Rightarrow> store \<Rightarrow> submission_doc option" where
  "submission_findOne i s = find (\<lambda>d. sub_id d = i) (submissions s)"

definition submission_updateOne ::
  "string \<Rightarrow> (submission_doc \<Rightarrow> submission_doc) \<Rightarrow> store \<Rightarrow> store" where
  "submission_updateOne i set_fields s =
     s\<lparr>submissions := update_first (\<lambda>d. sub_id d = i) set_fields (submissions s)\<rparr>"

definition attachment_findOne :: "object_id \<Rightarrow> store \<Rightarrow> attachment_doc option" where
  "attachment_findOne oid s = find (\<lambda>d. att_oid d = oid) (attachment_docs s)"

definition attachment_updateOne ::
  "object_id \<Rightarrow> (attachment_doc \<Rightarrow> attachment_doc) \<Rightarrow> store \<Rightarrow> store" where
  "attachment_updateOne oid set_fields s =
     s\<lparr>attachment_docs := update_first (\<lambda>d. att_oid d = oid) set_fields (attachment_docs s)\<rparr>"

section \<open>The reconciler: \<^verbatim>\<open>EventPipelineService.update\<close>\<close>

text \<open>
  An update with \<^verbatim>\<open>$set\<close> is cast through the schema of the collection before it is
  sent. The attachment schema declares \<^verbatim>\<open>classification\<close> as \<^verbatim>\<open>String\<close> and \<^verbatim>\<open>confidence\<close>
  as \<^verbatim>\<open>Number\<close>, both with default \<^verbatim>\<open>null\<close>. A caster leaves \<^verbatim>\<open>null\<close> and a value of its
  own type as they are, turns \<^verbatim>\<open>undefined\<close> into the default, and hands every other value
  to the library's conversion, which may throw; the update then rejects with a
  \<^verbatim>\<open>CastError\<close> and writes nothing. The other fields of an entry are text in this model
  and are cast to themselves. The result of a caster is \<open>None\<close> when it throws.
\<close>

definition castNumber :: "env \<Rightarrow> json option \<Rightarrow> json option option" where
  "castNumber w val =
     (case val of
        None \<Rightarrow> Some None
      | Some v \<Rightarrow>
          (case v of
             JNull \<Rightarrow> Some None
           | JNumber q \<Rightarrow> Some (Some (JNumber q))
           | _ \<Rightarrow> map_option (map_option JNumber) (cast_to_Number w v)))"

definition castString :: "env \<Rightarrow> json option \<Rightarrow> json option option" where
  "castString w val =
     (case val of
        None \<Rightarrow> Some None
      | Some v \<Rightarrow>
          (case v of
             JNull \<Rightarrow> Some None
           | JString t \<Rightarrow> Some (Some (JString t))
           | _ \<Rightarrow> map_option (map_option JString) (cast_to_String w v)))"

definition cast_entry :: "env \<Rightarrow> attachment \<Rightarrow> attachment option" where
  "cast_entry w a =
     (case castString w (classification a) of
        None \<Rightarrow> None
      | Some c \<Rightarrow>
          (case castNumber w (confidence a) of
             None \<Rightarrow> None
           | Some n \<Rightarrow> Some (a\<lparr>classification := c, confidence := n\<rparr>)))"

definition cast_attachments :: "env \<Rightarrow> attachment list \<Rightarrow> attachment list option" where
  "cast_attachments w atts = those (map (cast_entry w) atts)"

text \<open>
  \<^verbatim>\<open>
  await submission.updateOne({ id: event.data.metadata.submission_id },
                             { $set: { status: event.message } });
  const subDoc = await submission.findOne({ id: event.data.metadata.submission_id });
  if (!subDoc || !subDoc.attachments) return;
  await attachment.updateOne({ _id: subDoc.attachments },
                             { $set: { attachments: event.data.metadata.attachments } });
  \<close>
  The result is what the call resolves or rejects with, and the store it leaves behind.
  When the attachment list cannot be cast, the call rejects after the status has been
  written.
\<close>

definition update :: "env \<Rightarrow> event \<Rightarrow> store \<Rightarrow> (error + unit) \<times> store" where
  "update w ev s =
     (let sid = submission_id (metadata (data ev));
          s1 = submission_updateOne sid (\<lambda>d. d\<lparr>sub_status := message ev\<rparr>) s
      in case submission_findOne sid s1 of
           None \<Rightarrow> (Inr (), s1)
         | Some subDoc \<Rightarrow>
             (case sub_attachments subDoc of
                None \<Rightarrow> (Inr (), s1)
              | Some oid \<Rightarrow>
                  (case cast_attachments w (attachments (metadata (data ev))) of
                     None \<Rightarrow> (Inl CastError, s1)
                   | Some entries \<Rightarrow>
                       (Inr (),
                        attachment_updateOne oid (\<lambda>d. d\<lparr>att_attachments := entries\<rparr>) s1))))"

section \<open>Ingestion: \<^verbatim>\<open>IngestionService.ingestion\<close>\<close>

text \<open>\<^verbatim>\<open>create\<close> validates the document against its schema and inserts it under a new
  \<^verbatim>\<open>_id\<close>. A field declared \<^verbatim>\<open>{ type: String, required: true }\<close> is refused when it is
  missing or the empty string; the call then throws a validation error and inserts
  nothing. The submission schema has no \<^verbatim>\<open>subject\<close> path, so that field of the argument
  is dropped. The result of \<^verbatim>\<open>submission.create\<close> is kept as an \<open>option\<close> because the
  service tests it (\<^verbatim>\<open>if (!sub)\<close>); the store itself never returns \<^verbatim>\<open>null\<close> there.\<close>

definition submission_create ::
  "string \<Rightarrow> string \<Rightarrow> string \<Rightarrow> string \<Rightarrow> store \<Rightarrow> error + (submission_doc option \<times> store)" where
  "submission_create sndr bdy i st s =
     (if sndr \<noteq> [] \<and> bdy \<noteq> [] \<and> i \<noteq> [] \<and> st \<noteq> [] then
        let d = \<lparr>sub_oid = next_oid s, sub_sender = sndr, sub_body = bdy, sub_id = i,
                 sub_attachments = None, sub_status = st\<rparr>
        in Inr (Some d, s\<lparr>submissions := submissions s @ [d], next_oid := Suc (next_oid s)\<rparr>)
      else Inl ValidationError)"

definition valid_attachment :: "attachment \<Rightarrow> bool" where
  "valid_attachment a =
     ((case filename a of None \<Rightarrow> False | Some f \<Rightarrow> f \<noteq> []) \<and> content_type a \<noteq> [] \<and> url a \<noteq> [])"

definition attachment_create :: "attachment list \<Rightarrow> store \<Rightarrow> error + (attachment_doc \<times> store)" where
  "attachment_create atts s =
     (if list_all valid_attachment atts then
        let d = \<lparr>att_oid = next_oid s, att_attachments = atts\<rparr>
        in Inr (d, s\<lparr>attachment_docs := attachment_docs s @ [d], next_oid := Suc (next_oid s)\<rparr>)
      else Inl ValidationError)"

text \<open>The attachment list of the payload for the extraction stage:
  \<^verbatim>\<open>{ filename: att.filename ?? '', content_type: att.content_type, url: att.url }\<close>.\<close>

definition ocr_entry :: "attachment \<Rightarrow> attachment" where
  "ocr_entry att =
     \<lparr>filename = Some (case filename att of None \<Rightarrow> [] | Some f \<Rightarrow> f),
      content_type = content_type att, url = url att,
      text' = None, classification = None, confidence = None\<rparr>"

text \<open>
  \<^verbatim>\<open>
  const sub = await submission.create({ subject, sender, body, id, status: "ingestion in progress" });
  if (!sub) throw new InternalServerErrorException('Submission population failed');
  if (message.metadata.attachments?.length) {
      const attch = await attachment.create({ attachments: message.metadata.attachments });
      await submission.updateOne({ id: sub.id },
          { $set: { attachments: attch._id, status: "ingestion done" } });
  }
  const payload = { metadata: { ..., timestamp: new Date(), id, submission_id: sub.id,
                                attachments: (attachments || []).map(...) } }
  const event = { id: message.metadata.id, message: "ingestion_completed", data: payload }
  await redis.set(`redis:status:${event.id}`, JSON.stringify(event))
  await kafkaService.publishMessage('event.pipeline', event)
  await kafkaService.publishMessage('ocr.init', payload)
  \<close>
  The submission schema declares its own \<^verbatim>\<open>id\<close> path, so \<^verbatim>\<open>sub.id\<close> is that field.
  \<open>now\<close> is the value of \<^verbatim>\<open>new Date()\<close>. The result is what the call resolves or rejects
  with, and the store it leaves behind.
\<close>

definition ingestion :: "nat \<Rightarrow> pipeline_object \<Rightarrow> store \<Rightarrow> (error + effect list) \<times> store" where
  "ingestion now msg s =
     (let m = metadata msg in
      case submission_create (sender m) (body m) (id' m) ''ingestion in progress'' s of
        Inl e \<Rightarrow> (Inl e, s)
      | Inr (None, s1) \<Rightarrow> (Inl (InternalServerErrorException ''Submission population failed''), s1)
      | Inr (Some sub, s1) \<Rightarrow>
          (case (if attachments m \<noteq> [] then
                   (case attachment_create (attachments m) s1 of
                      Inl e \<Rightarrow> Inl e
                    | Inr (attch, s2) \<Rightarrow>
                        Inr (submission_updateOne (sub_id sub)
                               (\<lambda>d. d\<lparr>sub_attachments := Some (att_oid attch),
                                       sub_status := ''ingestion done''\<rparr>) s2))
                 else Inr s1) of
             Inl e \<Rightarrow> (Inl e, s1)
           | Inr s3 \<Rightarrow>
               (let payload = \<lparr>metadata = \<lparr>subject = subject m, sender = sender m, body = body m,
                                timestamp = now, id' = id' m,
                                attachments = map ocr_entry (attachments m),
                                submission_id = sub_id sub\<rparr>\<rparr>;
                    event = \<lparr>event_id = id' m, message = ''ingestion_completed'', data = payload\<rparr>
                in (Inr [Redis_set (''redis:status:'' @ event_id event) event None,
                         Publish ''event.pipeline'' (Envelope event),
                         Publish ''ocr.init'' (Message payload)], s3))))"

section \<open>Text helpers of the runtime\<close>

text \<open>\<^verbatim>\<open>String.prototype.trim\<close> on 8-bit text: tab, line feed, vertical tab, form feed,
  carriage return, space and the no-break space are white space.\<close>

definition is_space :: "char \<Rightarrow> bool" where
  "is_space c = (of_char c \<in> {9, 10, 11, 12, 13, 32, 160 :: nat})"

definition trim :: "string \<Rightarrow> string" where
  "trim s = rev (dropWhile is_space (rev (dropWhile is_space s)))"

text \<open>\<^verbatim>\<open>s.includes(t)\<close> and \<^verbatim>\<open>s.startsWith(t)\<close>.\<close>

definition startsWith :: "string \<Rightarrow> string \<Rightarrow> bool" where
  "startsWith s t = (take (length t) s = t)"

fun includes' :: "string \<Rightarrow> string \<Rightarrow> bool" where
  "includes' [] t = (t = [])"
| "includes' (c # cs) t = (startsWith (c # cs) t \<or> includes' cs t)"

section \<open>Extraction: \<^verbatim>\<open>OcrService\<close>\<close>

definition trim_run :: "engine_run \<Rightarrow> engine_run" where
  "trim_run r = (case r of Settles t (Resolved txt) \<Rightarrow> Settles t (Resolved (trim txt)) | _ \<Rightarrow> r)"

text \<open>\<^verbatim>\<open>_extractTextFromImage\<close>: download, recognise, \<^verbatim>\<open>text.trim()\<close>.\<close>

definition inner_extractTextFromImage :: "env \<Rightarrow> nat \<Rightarrow> string \<Rightarrow> engine_run" where
  "inner_extractTextFromImage w i imageUrl = trim_run (download_and_recognize w i imageUrl)"

text \<open>
  \<^verbatim>\<open>
  const submissionTimeout = 60_000;
  return Promise.race([ this._extractTextFromImage(imageUrl),
    new Promise((_, reject) => setTimeout(() => reject(new Error('OCR Timeout')), submissionTimeout)) ]);
  \<close>
  The race settles with whichever promise settles first; an engine that settles exactly
  when the timer fires is counted as late.
\<close>

definition submissionTimeout :: nat where
  "submissionTimeout = 60000"

definition extractTextFromImage :: "env \<Rightarrow> nat \<Rightarrow> string \<Rightarrow> engine_run" where
  "extractTextFromImage w i imageUrl =
     (case inner_extractTextFromImage w i imageUrl of
        Never \<Rightarrow> Settles submissionTimeout (Rejected ''OCR Timeout'')
      | Settles t r \<Rightarrow>
          (if t < submissionTimeout then Settles t r
           else Settles submissionTimeout (Rejected ''OCR Timeout'')))"

text \<open>\<^verbatim>\<open>extractTextFromPdf\<close>: download, parse, \<^verbatim>\<open>pdfData.text.trim()\<close>; no race.\<close>

definition extractTextFromPdf :: "env \<Rightarrow> nat \<Rightarrow> string \<Rightarrow> engine_run" where
  "extractTextFromPdf w i pdfUrl = trim_run (download_and_pdfParse w i pdfUrl)"

text \<open>
  The callback that \<^verbatim>\<open>processOcr\<close> maps over the attachments. It assigns \<^verbatim>\<open>att.text\<close>
  in place after a successful extraction and for an unsupported type; when the
  extraction rejects, the \<^verbatim>\<open>catch\<close> returns a copy \<^verbatim>\<open>{ ...att, text: '' }\<close> and leaves
  \<^verbatim>\<open>att\<close> as it was. The result is \<open>None\<close> when the callback never settles, and otherwise
  the attachment as the callback leaves it together with the value the callback
  returns (\<open>None\<close> for \<^verbatim>\<open>null\<close>).
\<close>

definition after_extraction :: "attachment \<Rightarrow> engine_run \<Rightarrow> (attachment \<times> attachment option) option" where
  "after_extraction att r =
     (case r of
        Never \<Rightarrow> None
      | Settles t (Resolved txt) \<Rightarrow> Some (att\<lparr>text' := Some txt\<rparr>, Some (att\<lparr>text' := Some txt\<rparr>))
      | Settles t (Rejected e) \<Rightarrow> Some (att, Some (att\<lparr>text' := Some []\<rparr>)))"

definition ocr_attachment :: "env \<Rightarrow> nat \<Rightarrow> attachment \<Rightarrow> (attachment \<times> attachment option) option" where
  "ocr_attachment w i att =
     (if includes' (content_type att) ''image'' then
        after_extraction att (extractTextFromImage w i (url att))
      else if includes' (content_type att) ''pdf'' then
        after_extraction att (extractTextFromPdf w i (url att))
      else Some (att\<lparr>text' := Some []\<rparr>, None))"

text \<open>
  \<^verbatim>\<open>processOcr\<close>: \<^verbatim>\<open>Promise.all\<close> over the callbacks, which never reject, so it settles
  when all of them have and never when one of them does not. The array \<^verbatim>\<open>results\<close> and
  its filtered copy \<^verbatim>\<open>parsedData\<close> are not used afterwards: the envelope and the message
  for the classification stage carry \<^verbatim>\<open>message\<close> itself, with the assignments the
  callbacks made.
  \<^verbatim>\<open>
  const event = { id: message.metadata.id, message: 'ocr_completed', data: message };
  await redis.set(`ocr:status:${event.id}`, JSON.stringify(event), 'EX', 3600);
  await kafkaService.publishMessage('event.pipeline', event);
  await kafkaService.publishMessage('classification.init', message);
  \<close>
  The result is \<open>None\<close> when the call never settles. The outer \<^verbatim>\<open>catch\<close>, which turns any
  error into \<^verbatim>\<open>InternalServerErrorException('OCR processing failed')\<close>, is only reached
  when the cache or the channel fails.
\<close>

definition processOcr :: "env \<Rightarrow> pipeline_object \<Rightarrow> (error + effect list) option" where
  "processOcr w msg =
     (let m = metadata msg in
      case those (map (\<lambda>(i, att). ocr_attachment w i att) (enumerate 0 (attachments m))) of
        None \<Rightarrow> None
      | Some settled_all \<Rightarrow>
          (let results = map snd settled_all;
               parsedData = filter (\<lambda>r. r \<noteq> None) results;
               msg' = msg\<lparr>metadata := m\<lparr>attachments := map fst settled_all\<rparr>\<rparr>;
               event = \<lparr>event_id = id' m, message = ''ocr_completed'', data = msg'\<rparr>
           in Some (Inr [Redis_set (''ocr:status:'' @ event_id event) event (Some 3600),
                         Publish ''event.pipeline'' (Envelope event),
                         Publish ''classification.init'' (Message msg')])))"

section \<open>Classification: \<^verbatim>\<open>ClassificationService\<close>\<close>

text \<open>The prompt of \<^verbatim>\<open>classify\<close>, a template literal that ends with the document text.\<close>

definition prompt :: "string \<Rightarrow> string" where
  \<open>prompt txt =
     [CHR 0x0A] @ ''        You are a document classifier.'' @
     [CHR 0x0A] @ ''        Categories: ["invoice", "receipt", "contract", "id_card", "resume"].'' @
     [CHR 0x0A] @ ''        Respond ONLY with a JSON object { "type": "...", "confidence": 0-1 }.'' @
     [CHR 0x0A] @
     [CHR 0x0A] @ ''        Document:'' @
     [CHR 0x0A] @ ''        '' @ txt @
     [CHR 0x0A] @ ''      ''\<close>

text \<open>The code fence: three grave accents.\<close>

definition fence :: string where
  "fence = [CHR 0x60, CHR 0x60, CHR 0x60]"

definition is_letter :: "char \<Rightarrow> bool" where
  "is_letter c = ((65 \<le> (of_char c :: nat) \<and> (of_char c :: nat) \<le> 90) \<or>
                  (97 \<le> (of_char c :: nat) \<and> (of_char c :: nat) \<le> 122))"

definition drop_newline :: "string \<Rightarrow> string" where
  "drop_newline s = (case s of [] \<Rightarrow> [] | c # cs \<Rightarrow> (if c = CHR 0x0A then cs else c # cs))"

lemma length_drop_newline: "length (drop_newline s) \<le> length s"
  by (simp add: drop_newline_def split: list.split)

lemma length_after_fence:
  "length (drop_newline (dropWhile is_letter (drop 2 cs))) < Suc (length cs)"
proof -
  have "length (drop_newline (dropWhile is_letter (drop 2 cs))) \<le> length (dropWhile is_letter (drop 2 cs))"
    by (rule length_drop_newline)
  also have "\<dots> \<le> length (drop 2 cs)"
    by (rule length_dropWhile_le)
  also have "\<dots> < Suc (length cs)"
    by simp
  finally show ?thesis .
qed

text \<open>The first replacement of \<^verbatim>\<open>classify\<close>, with the pattern of a fence, any run of
  ASCII letters of either case and at most one line feed, flags \<^verbatim>\<open>g\<close> and \<^verbatim>\<open>i\<close>: every
  match, found from left to right, is removed.\<close>

function replace_fences :: "string \<Rightarrow> string" where
  "replace_fences [] = []"
| "replace_fences (c # cs) =
     (if startsWith (c # cs) fence
      then replace_fences (drop_newline (dropWhile is_letter (drop 2 cs)))
      else c # replace_fences cs)"
  by pat_completeness auto
termination
  by (relation "measure length") (auto simp: length_after_fence)

text \<open>The second replacement: a fence at the very end of the text is removed.\<close>

definition replace_final_fence :: "string \<Rightarrow> string" where
  "replace_final_fence s =
     (if 3 \<le> length s \<and> drop (length s - 3) s = fence then take (length s - 3) s else s)"

text \<open>A member of a parsed value, as \<^verbatim>\<open>classified.type\<close> reads it: of an object the value
  of the last member with that name, of any other value but \<^verbatim>\<open>null\<close> nothing
  (\<^verbatim>\<open>undefined\<close>). Reading a member of \<^verbatim>\<open>null\<close> throws; the caller tests for it.\<close>

definition property :: "string \<Rightarrow> json \<Rightarrow> json option" where
  "property k v = (case v of JObject kvs \<Rightarrow> map_of (rev kvs) k | _ \<Rightarrow> None)"

definition fallback :: json where
  "fallback = JObject [(''type'', JString ''unknown''), (''confidence'', JNumber 0)]"

text \<open>
  \<^verbatim>\<open>
  try {
      const response = await generateContent(prompt);
      let output = response.text || "unknown";
      output = output.trim();
      if (output.startsWith(FENCE)) {
          output = output.replace(/FENCE[a-z]*\n?/gi, "").replace(/FENCE$/, "").trim();
      }
      const parsed = JSON.parse(output);
      return parsed;
  } catch (err) {
      return { type: "unknown", confidence: 0 };
  }
  \<close>
  (\<^verbatim>\<open>FENCE\<close> stands for the three grave accents.) \<open>cleaned_output\<close> is the text handed
  to \<^verbatim>\<open>JSON.parse\<close>, computed from \<^verbatim>\<open>response.text\<close>. The result of \<open>classify\<close> is \<open>None\<close>
  when the engine never answers.
\<close>

definition cleaned_output :: "string option \<Rightarrow> string" where
  "cleaned_output response_text =
     (let output = (case response_text of None \<Rightarrow> ''unknown''
                    | Some t \<Rightarrow> (if t = [] then ''unknown'' else t));
          output = trim output
      in if startsWith output fence
         then trim (replace_final_fence (replace_fences output))
         else output)"

definition classify :: "env \<Rightarrow> nat \<Rightarrow> string \<Rightarrow> json option" where
  "classify w i txt =
     (case generateContent w i (prompt txt) of
        Hangs \<Rightarrow> None
      | Fails e \<Rightarrow> Some fallback
      | Reply response_text \<Rightarrow>
          (case JSON_parse w (cleaned_output response_text) of
             None \<Rightarrow> Some fallback
           | Some parsed \<Rightarrow> Some parsed))"

text \<open>How one callback of \<^verbatim>\<open>Promise.all\<close> ends.\<close>

datatype 'a step = Pending | Thrown | Done 'a

text \<open>
  \<^verbatim>\<open>
  const classified = await this.classify(file.text || "");
  file.classification = classified.type;
  file.confidence = classified.confidence;
  \<close>
  \<^verbatim>\<open>classify\<close> returns what \<^verbatim>\<open>JSON.parse\<close> gave; when that is \<^verbatim>\<open>null\<close>, reading
  \<^verbatim>\<open>classified.type\<close> throws a \<^verbatim>\<open>TypeError\<close> outside the \<^verbatim>\<open>try\<close> of \<^verbatim>\<open>classify\<close>.
  \<open>text_or_empty\<close> is \<^verbatim>\<open>file.text || ""\<close>.
\<close>

definition text_or_empty :: "attachment \<Rightarrow> string" where
  "text_or_empty file = (case text' file of None \<Rightarrow> [] | Some t \<Rightarrow> t)"

definition classify_file :: "env \<Rightarrow> nat \<Rightarrow> attachment \<Rightarrow> attachment step" where
  "classify_file w i file =
     (case classify w i (text_or_empty file) of
        None \<Rightarrow> Pending
      | Some classified \<Rightarrow>
          (if classified = JNull then Thrown
           else Done (file\<lparr>classification := property ''type'' classified,
                            confidence := property ''confidence'' classified\<rparr>)))"

fun done_values :: "'a step list \<Rightarrow> 'a list" where
  "done_values [] = []"
| "done_values (Done x # rs) = x # done_values rs"
| "done_values (r # rs) = done_values rs"

text \<open>
  \<^verbatim>\<open>processClassification\<close>: \<^verbatim>\<open>Promise.all\<close> rejects as soon as one callback throws, and
  the outer \<^verbatim>\<open>catch\<close> turns that into
  \<^verbatim>\<open>InternalServerErrorException('Classification processing failed')\<close>; otherwise it
  waits for every callback.
  \<^verbatim>\<open>
  const event = { id: message.metadata.id, message: "classification_completed", data: message };
  await redis.set(`redis:status:${event.id}`, JSON.stringify(event));
  await kafkaService.publishMessage('event.pipeline', event);
  \<close>
\<close>

definition processClassification :: "env \<Rightarrow> pipeline_object \<Rightarrow> (error + effect list) option" where
  "processClassification w msg =
     (let m = metadata msg;
          steps = map (\<lambda>(i, file). classify_file w i file) (enumerate 0 (attachments m))
      in if Thrown \<in> set steps then
           Some (Inl (InternalServerErrorException ''Classification processing failed''))
         else if Pending \<in> set steps then None
         else
           (let msg' = msg\<lparr>metadata := m\<lparr>attachments := done_values steps\<rparr>\<rparr>;
                event = \<lparr>event_id = id' m, message = ''classification_completed'', data = msg'\<rparr>
            in Some (Inr [Redis_set (''redis:status:'' @ event_id event) event None,
                          Publish ''event.pipeline'' (Envelope event)])))"

section \<open>A JSON reader for the examples\<close>

text \<open>
  The services are stated for any \<open>JSON_parse\<close>. The examples need one: \<open>parse_json\<close>
  reads the JSON grammar (white space, literals, numbers, strings with escapes, arrays,
  objects) from 8-bit text. A number is kept as the decimal value written, not rounded to
  a binary float; a \<^verbatim>\<open>\u\<close> escape is read when it denotes a character below 256 and
  refused otherwise, since no \<open>char\<close> holds it. The first argument of the three mutually
  recursive readers bounds the number of calls; \<open>parse_json\<close> starts with twice the
  length of the text, and a call is made only after a character has been read or is
  followed by one that reads a character.
\<close>

definition is_json_space :: "char \<Rightarrow> bool" where
  "is_json_space c = (of_char c \<in> {9, 10, 13, 32 :: nat})"

definition skip_ws :: "string \<Rightarrow> string" where
  "skip_ws s = dropWhile is_json_space s"

definition is_digit :: "char \<Rightarrow> bool" where
  "is_digit c = (48 \<le> (of_char c :: nat) \<and> (of_char c :: nat) \<le> 57)"

definition digits_value :: "string \<Rightarrow> nat" where
  "digits_value ds = foldl (\<lambda>n c. 10 * n + (of_char c - 48)) 0 ds"

definition hex_digit :: "char \<Rightarrow> nat option" where
  "hex_digit c =
     (let n = (of_char c :: nat) in
      if 48 \<le> n \<and> n \<le> 57 then Some (n - 48)
      else if 65 \<le> n \<and> n \<le> 70 then Some (n - 55)
      else if 97 \<le> n \<and> n \<le> 102 then Some (n - 87)
      else None)"

definition hex_value :: "string \<Rightarrow> nat option" where
  "hex_value hs =
     foldl (\<lambda>acc c. case acc of None \<Rightarrow> None
                     | Some n \<Rightarrow> (case hex_digit c of None \<Rightarrow> None | Some d \<Rightarrow> Some (16 * n + d)))
       (Some 0) hs"

definition unescape :: "char \<Rightarrow> char option" where
  "unescape e =
     (if e = CHR 0x22 \<or> e = CHR 0x5C \<or> e = CHR ''/'' then Some e
      else if e = CHR ''b'' then Some (CHR 0x08)
      else if e = CHR ''f'' then Some (CHR 0x0C)
      else if e = CHR ''n'' then Some (CHR 0x0A)
      else if e = CHR ''r'' then Some (CHR 0x0D)
      else if e = CHR ''t'' then Some (CHR 0x09)
      else None)"

text \<open>The characters of a string after its opening quote, up to the closing quote.\<close>

fun parse_string_body :: "string \<Rightarrow> string \<Rightarrow> (string \<times> string) option" where
  "parse_string_body acc [] = None"
| "parse_string_body acc [c] = (if c = CHR 0x22 then Some (rev acc, []) else None)"
| "parse_string_body acc (c # e # es) =
     (if c = CHR 0x22 then Some (rev acc, e # es)
      else if c = CHR 0x5C then
        (if e = CHR ''u'' then
           (case (if length es < 4 then None else hex_value (take 4 es)) of
              None \<Rightarrow> None
            | Some n \<Rightarrow> (if n < 256 then parse_string_body (char_of n # acc) (drop 4 es) else None))
         else (case unescape e of
                 None \<Rightarrow> None
               | Some ch \<Rightarrow> parse_string_body (ch # acc) es))
      else if (of_char c :: nat) < 32 then None
      else parse_string_body (c # acc) (e # es))"

definition parse_number :: "string \<Rightarrow> (rat \<times> string) option" where
  "parse_number s =
     (let neg = startsWith s ''-'';
          s1 = (if neg then tl s else s);
          ip = takeWhile is_digit s1;
          s2 = dropWhile is_digit s1
      in if ip = [] \<or> (1 < length ip \<and> hd ip = CHR ''0'') then None
         else
           (let has_frac = startsWith s2 ''.'';
                fp = (if has_frac then takeWhile is_digit (tl s2) else []);
                s3 = (if has_frac then dropWhile is_digit (tl s2) else s2)
            in if has_frac \<and> fp = [] then None
               else
                 (let has_exp = (startsWith s3 ''e'' \<or> startsWith s3 ''E'');
                      s4 = (if has_exp then tl s3 else s3);
                      eneg = (has_exp \<and> startsWith s4 ''-'');
                      s5 = (if has_exp \<and> (startsWith s4 ''-'' \<or> startsWith s4 ''+'') then tl s4 else s4);
                      ep = (if has_exp then takeWhile is_digit s5 else []);
                      s6 = (if has_exp then dropWhile is_digit s5 else s3)
                  in if has_exp \<and> ep = [] then None
                     else
                       (let mant = (of_nat (digits_value (ip @ fp)) :: rat);
                            e = (if eneg then - int (digits_value ep) else int (digits_value ep))
                                  - int (length fp);
                            v = (if 0 \<le> e then mant * 10 ^ nat e else mant / 10 ^ nat (- e))
                        in Some (if neg then - v else v, s6)))))"

fun parse_value :: "nat \<Rightarrow> string \<Rightarrow> (json \<times> string) option"
  and parse_elements :: "nat \<Rightarrow> json list \<Rightarrow> string \<Rightarrow> (json list \<times> string) option"
  and parse_members ::
    "nat \<Rightarrow> (string \<times> json) list \<Rightarrow> string \<Rightarrow> ((string \<times> json) list \<times> string) option"
where
  "parse_value 0 s = None"
| "parse_value (Suc n) s =
     (if startsWith s ''null'' then Some (JNull, drop 4 s)
      else if startsWith s ''true'' then Some (JBool True, drop 4 s)
      else if startsWith s ''false'' then Some (JBool False, drop 5 s)
      else if startsWith s [CHR 0x22] then
        (case parse_string_body [] (tl s) of
           None \<Rightarrow> None
         | Some (str, r) \<Rightarrow> Some (JString str, r))
      else if startsWith s ''['' then
        (if startsWith (skip_ws (tl s)) '']'' then Some (JArray [], tl (skip_ws (tl s)))
         else (case parse_elements n [] (skip_ws (tl s)) of
                 None \<Rightarrow> None
               | Some (vs, r) \<Rightarrow> Some (JArray vs, r)))
      else if startsWith s ''{'' then
        (if startsWith (skip_ws (tl s)) ''}'' then Some (JObject [], tl (skip_ws (tl s)))
         else (case parse_members n [] (skip_ws (tl s)) of
                 None \<Rightarrow> None
               | Some (kvs, r) \<Rightarrow> Some (JObject kvs, r)))
      else (case parse_number s of
              None \<Rightarrow> None
            | Some (q, r) \<Rightarrow> Some (JNumber q, r)))"
| "parse_elements 0 acc s = None"
| "parse_elements (Suc n) acc s =
     (case parse_value n s of
        None \<Rightarrow> None
      | Some (v, r) \<Rightarrow>
          (if startsWith (skip_ws r) '','' then parse_elements n (v # acc) (skip_ws (tl (skip_ws r)))
           else if startsWith (skip_ws r) '']'' then Some (rev (v # acc), tl (skip_ws r))
           else None))"
| "parse_members 0 acc s = None"
| "parse_members (Suc n) acc s =
     (if startsWith s [CHR 0x22] then
        (case parse_string_body [] (tl s) of
           None \<Rightarrow> None
         | Some (k, r) \<Rightarrow>
             (if startsWith (skip_ws r) '':'' then
                (case parse_value n (skip_ws (tl (skip_ws r))) of
                   None \<Rightarrow> None
                 | Some (v, r2) \<Rightarrow>
                     (if startsWith (skip_ws r2) '','' then
                        parse_members n ((k, v) # acc) (skip_ws (tl (skip_ws r2)))
                      else if startsWith (skip_ws r2) ''}'' then
                        Some (rev ((k, v) # acc), tl (skip_ws r2))
                      else None))
              else None))
      else None)"

definition parse_json :: "string \<Rightarrow> json option" where
  "parse_json s =
     (case parse_value (2 * length s + 2) (skip_ws s) of
        None \<Rightarrow> None
      | Some (v, r) \<Rightarrow> (if skip_ws r = [] then Some v else None))"

section \<open>Conversions of the store library for the examples\<close>

text \<open>
  The reconciler is stated for any \<open>cast_to_Number\<close> and \<open>cast_to_String\<close>. The examples
  use the following simplification: a string is read as a number when, apart from
  surrounding white space and one leading plus sign, it is a decimal literal of the JSON
  grammar (white space alone is 0, the empty string is \<^verbatim>\<open>null\<close>, anything else is
  refused), a boolean is 1 or 0; a number is written in decimal notation with at most 17
  digits after the point, a boolean as \<^verbatim>\<open>true\<close> or \<^verbatim>\<open>false\<close>. Arrays and objects are
  refused by both. The library itself reads more strings as numbers (hexadecimal
  literals, a literal without a digit before or after the point, \<^verbatim>\<open>Infinity\<close>) and
  unwraps an object that has an \<^verbatim>\<open>_id\<close> member; no example has any of those.
\<close>

definition number_of_text :: "string \<Rightarrow> rat option" where
  "number_of_text s =
     (let t = trim s in
      if t = [] then Some 0
      else if startsWith t ''+'' \<and> startsWith (tl t) ''-'' then None
      else (case parse_number (if startsWith t ''+'' then tl t else t) of
              None \<Rightarrow> None
            | Some (q, r) \<Rightarrow> (if r = [] then Some q else None)))"

fun nat_digits :: "nat \<Rightarrow> nat \<Rightarrow> string \<Rightarrow> string" where
  "nat_digits 0 n acc = acc"
| "nat_digits (Suc k) n acc =
     (if n < 10 then char_of (48 + n) # acc
      else nat_digits k (n div 10) (char_of (48 + n mod 10) # acc))"

fun frac_digits :: "nat \<Rightarrow> rat \<Rightarrow> string" where
  "frac_digits 0 r = []"
| "frac_digits (Suc k) r =
     (if r = 0 then []
      else char_of (48 + nat \<lfloor>r * 10\<rfloor>) # frac_digits k (r * 10 - of_int \<lfloor>r * 10\<rfloor>))"

definition number_text :: "rat \<Rightarrow> string" where
  "number_text q =
     (if q < 0 then ''-'' else []) @
     nat_digits (Suc (nat \<lfloor>\<bar>q\<bar>\<rfloor>)) (nat \<lfloor>\<bar>q\<bar>\<rfloor>) [] @
     (if \<bar>q\<bar> = of_int \<lfloor>\<bar>q\<bar>\<rfloor> then []
      else ''.'' @ frac_digits 17 (\<bar>q\<bar> - of_int \<lfloor>\<bar>q\<bar>\<rfloor>))"

definition sample_cast_to_Number :: "json \<Rightarrow> rat option option" where
  "sample_cast_to_Number v =
     (case v of
        JString t \<Rightarrow> (if t = [] then Some None else map_option Some (number_of_text t))
      | JBool b \<Rightarrow> Some (Some (if b then 1 else 0))
      | _ \<Rightarrow> None)"

definition sample_cast_to_String :: "json \<Rightarrow> string option option" where
  "sample_cast_to_String v =
     (case v of
        JNumber q \<Rightarrow> Some (Some (number_text q))
      | JBool b \<Rightarrow> Some (Some (if b then ''true'' else ''false''))
      | _ \<Rightarrow> None)"

section \<open>Notions used in the statements\<close>

text \<open>The stored Submissions that carry a given \<^verbatim>\<open>id\<close>.\<close>

definition submissions_with_id :: "string \<Rightarrow> store \<Rightarrow> submission_doc list" where
  "submissions_with_id i s = filter (\<lambda>d. sub_id d = i) (submissions s)"

text \<open>An inbound event that passes the validation of both schemas: sender, body and id
  are not empty, and every attachment has a file name, a content type and a location.\<close>

definition valid_event :: "pipeline_object \<Rightarrow> bool" where
  "valid_event msg =
     (sender (metadata msg) \<noteq> [] \<and> body (metadata msg) \<noteq> [] \<and> id' (metadata msg) \<noteq> [] \<and>
      list_all valid_attachment (attachments (metadata msg)))"

text \<open>The classification engine fails on an attachment: the call rejects, or the cleaned
  response is not JSON.\<close>

definition engine_failed :: "env \<Rightarrow> nat \<Rightarrow> attachment \<Rightarrow> bool" where
  "engine_failed w i file =
     (case generateContent w i (prompt (text_or_empty file)) of
        Fails e \<Rightarrow> True
      | Reply response_text \<Rightarrow> JSON_parse w (cleaned_output response_text) = None
      | Hangs \<Rightarrow> False)"

text \<open>The classification engine answers on an attachment: the call resolves and the cleaned
  response is JSON other than \<^verbatim>\<open>null\<close>.\<close>

definition engine_answered :: "env \<Rightarrow> nat \<Rightarrow> attachment \<Rightarrow> bool" where
  "engine_answered w i file =
     (case generateContent w i (prompt (text_or_empty file)) of
        Reply response_text \<Rightarrow>
          (case JSON_parse w (cleaned_output response_text) of
             None \<Rightarrow> False
           | Some parsed \<Rightarrow> parsed \<noteq> JNull)
      | _ \<Rightarrow> False)"

text \<open>A confidence, when present, is a number from 0 to 1.\<close>

definition confidence_in_range :: "json option \<Rightarrow> bool" where
  "confidence_in_range c =
     (case c of None \<Rightarrow> True | Some (JNumber q) \<Rightarrow> 0 \<le> q \<and> q \<le> 1 | Some _ \<Rightarrow> False)"

text \<open>An entry whose classification and confidence, when present, have the types the
  attachment schema declares: a string and a number.\<close>

definition schema_typed :: "attachment \<Rightarrow> bool" where
  "schema_typed a =
     ((case classification a of None \<Rightarrow> True | Some (JString t) \<Rightarrow> True | Some _ \<Rightarrow> False) \<and>
      (case confidence a of None \<Rightarrow> True | Some (JNumber q) \<Rightarrow> True | Some _ \<Rightarrow> False))"

section \<open>Example data\<close>

text \<open>Concrete attachments, messages, envelopes and stores, used where a statement is
  evaluated.\<close>

definition att_a :: attachment where
  "att_a = \<lparr>filename = Some ''a.png'', content_type = ''image/png'', url = ''https://files/a.png'',
            text' = None, classification = None, confidence = None\<rparr>"

definition att_b :: attachment where
  "att_b = \<lparr>filename = Some ''b.pdf'', content_type = ''application/pdf'', url = ''https://files/b.pdf'',
            text' = None, classification = None, confidence = None\<rparr>"

definition message_with :: "string \<Rightarrow> attachment list \<Rightarrow> pipeline_object" where
  "message_with i atts =
     \<lparr>metadata = \<lparr>subject = ''sub'', sender = ''a@b.com'', body = ''body'', timestamp = 0,
                  id' = i, attachments = atts, submission_id = i\<rparr>\<rparr>"

definition envelope_with :: "string \<Rightarrow> string \<Rightarrow> attachment list \<Rightarrow> event" where
  "envelope_with i kind atts = \<lparr>event_id = i, message = kind, data = message_with i atts\<rparr>"

definition linked_store :: store where
  "linked_store =
     \<lparr>submissions = [\<lparr>sub_oid = 0, sub_sender = ''a@b.com'', sub_body = ''body'', sub_id = ''id-1'',
                       sub_attachments = Some 1, sub_status = ''ingestion done''\<rparr>],
      attachment_docs = [\<lparr>att_oid = 1, att_attachments = [att_a, att_b]\<rparr>],
      next_oid = 2\<rparr>"


definition att_c :: attachment where
  "att_c = \<lparr>filename = Some ''c.png'', content_type = ''image/png'', url = ''https://files/c.png'',
            text' = None, classification = None, confidence = None\<rparr>"

definition att_d :: attachment where
  "att_d = \<lparr>filename = Some ''d.pdf'', content_type = ''application/pdf'', url = ''https://files/d.pdf'',
            text' = None, classification = None, confidence = None\<rparr>"

definition att_e :: attachment where
  "att_e = \<lparr>filename = Some ''e.pdf'', content_type = ''application/pdf'', url = ''https://files/e.pdf'',
            text' = None, classification = None, confidence = None\<rparr>"

text \<open>A world in which the image \<^verbatim>\<open>a.png\<close> is recognised after 1.2 seconds, the document
  \<^verbatim>\<open>b.pdf\<close> is parsed after 0.3 seconds, \<^verbatim>\<open>e.pdf\<close> after 90 seconds, and no other
  download ever ends; the classification engine answers the first attachment with a
  confidence of 95, the second with prose, fails on the third and answers \<^verbatim>\<open>null\<close>
  from the fourth on; the store library converts as described above.\<close>

definition sample_env :: env where
  \<open>sample_env =
     \<lparr>download_and_recognize =
        (\<lambda>i u. if u = ''https://files/a.png'' then Settles 1200 (Resolved '' hello '') else Never),
      download_and_pdfParse =
        (\<lambda>i u. if u = ''https://files/b.pdf'' then Settles 300 (Resolved ''world'')
               else if u = ''https://files/e.pdf'' then Settles 90000 (Resolved ''late'')
               else Never),
      generateContent =
        (\<lambda>i p. if i = 0 then Reply (Some ''{"type":"invoice","confidence":95}'')
               else if i = 1 then Reply (Some ''This looks like an invoice.'')
               else if i = 2 then Fails ''quota exceeded''
               else Reply (Some ''null'')),
      JSON_parse = parse_json,
      cast_to_Number = sample_cast_to_Number,
      cast_to_String = sample_cast_to_String\<rparr>\<close>

text \<open>A response wrapped in a code fence with the language tag \<^verbatim>\<open>json\<close>.\<close>

definition fenced_reply :: string where
  \<open>fenced_reply =
     fence @ ''json'' @ [CHR 0x0A] @ ''{"type":"receipt","confidence":0.9}'' @ [CHR 0x0A] @ fence\<close>

text \<open>An entry as the classification stage emits it when the engine answers
  \<^verbatim>\<open>{"type":"invoice","confidence":"high"}\<close>.\<close>

definition att_high :: attachment where
  "att_high = att_a\<lparr>classification := Some (JString ''invoice''), confidence := Some (JString ''high'')\<rparr>"


text \<open>A world like \<open>sample_env\<close> in which the classification engine answers every
  attachment with a confidence that is the word \<^verbatim>\<open>high\<close>.\<close>

definition high_env :: env where
  \<open>high_env =
     sample_env\<lparr>generateContent := (\<lambda>i p. Reply (Some ''{"type":"invoice","confidence":"high"}''))\<rparr>\<close>

text \<open>Prose wrapped in a code fence with the tag \<^verbatim>\<open>text\<close>, and a world like \<open>sample_env\<close> in
  which the engine answers the second attachment with it.\<close>

definition fenced_prose :: string where
  "fenced_prose = fence @ ''text'' @ [CHR 0x0A] @ ''not json'' @ [CHR 0x0A] @ fence"


section \<open>Facts about the store operations\<close>

lemma update_first_no_match: "find p xs = None \<Longrightarrow> update_first p f xs = xs"
  by (induction xs) (auto split: if_splits)

lemma find_update_first:
  "(\<And>x. p (f x) = p x) \<Longrightarrow> find p (update_first p f xs) = map_option f (find p xs)"
  by (induction xs) auto


section \<open>Ingestion\<close>

lemmas ingestion_defs =
  ingestion_def submission_create_def attachment_create_def valid_attachment_def
  submission_updateOne_def ocr_entry_def Let_def

lemma filter_update_first_id:
  "(\<And>x. sub_id (f x) = sub_id x) \<Longrightarrow>
   length (filter (\<lambda>d. sub_id d = i) (update_first p f xs)) = length (filter (\<lambda>d. sub_id d = i) xs)"
  by (induction xs) auto

lemma ingestion_valid:
  assumes "valid_event msg"
  shows "\<exists>effs. fst (ingestion now msg s) = Inr effs"
    and "length (submissions_with_id (id' (metadata msg)) (snd (ingestion now msg s))) =
           Suc (length (submissions_with_id (id' (metadata msg)) s))"
    and "length (attachment_docs (snd (ingestion now msg s))) =
           length (attachment_docs s) + (if attachments (metadata msg) = [] then 0 else 1)"
  using assms
  by (simp_all add: valid_event_def ingestion_def submission_create_def attachment_create_def
        Let_def submissions_with_id_def submission_updateOne_def filter_update_first_id)

lemma update_first_append_new:
  "find p xs = None \<Longrightarrow> p d \<Longrightarrow> update_first p f (xs @ [d]) = xs @ [f d]"
  by (induction xs) (auto split: if_splits)

lemma find_append_new:
  "find p xs = None \<Longrightarrow> find p (xs @ [d]) = (if p d then Some d else None)"
  by (induction xs) (auto split: if_splits)

text \<open>
  C1, as stated, fails. Ingesting the same event (id \<^verbatim>\<open>id-1\<close>, one attachment) twice into
  the empty store leaves two Submissions with that id and two Attachment-sets:
  \<^verbatim>\<open>submission.create\<close> inserts whenever it is called, and the schema has no unique index.
  The second call links its Attachment-set to the first Submission, the first match of
  \<^verbatim>\<open>updateOne\<close>, and leaves the Submission it created without a link.
\<close>

theorem ingestion_twice_same_id:
  "snd (ingestion 1 (message_with ''id-1'' [att_a])
          (snd (ingestion 0 (message_with ''id-1'' [att_a]) empty_store))) =
     \<lparr>submissions =
        [\<lparr>sub_oid = 0, sub_sender = ''a@b.com'', sub_body = ''body'', sub_id = ''id-1'',
          sub_attachments = Some 3, sub_status = ''ingestion done''\<rparr>,
         \<lparr>sub_oid = 2, sub_sender = ''a@b.com'', sub_body = ''body'', sub_id = ''id-1'',
          sub_attachments = None, sub_status = ''ingestion in progress''\<rparr>],
      attachment_docs =
        [\<lparr>att_oid = 1, att_attachments = [att_a]\<rparr>, \<lparr>att_oid = 3, att_attachments = [att_a]\<rparr>],
      next_oid = 4\<rparr> \<and>
   length (submissions_with_id ''id-1''
     (snd (ingestion 1 (message_with ''id-1'' [att_a])
        (snd (ingestion 0 (message_with ''id-1'' [att_a]) empty_store))))) = 2"
  by (simp add: ingestion_defs submissions_with_id_def message_with_def att_a_def empty_store_def)


text \<open>
  C1, amended. Ingestion is not idempotent in the submission identifier. Every call with a
  valid event resolves and inserts one new Submission that carries the id of the event
  and, when the attachment list is not empty, one new Attachment-set; two calls with the
  same event therefore leave two more Submissions with that id and, for a non-empty
  list, two more Attachment-sets.
\<close>

theorem ingestion_adds_records:
  assumes "valid_event msg"
  shows "(\<exists>effs. fst (ingestion t1 msg s) = Inr effs) \<and>
         (\<exists>effs. fst (ingestion t2 msg (snd (ingestion t1 msg s))) = Inr effs) \<and>
         length (submissions_with_id (id' (metadata msg))
                   (snd (ingestion t2 msg (snd (ingestion t1 msg s))))) =
           length (submissions_with_id (id' (metadata msg)) s) + 2 \<and>
         length (attachment_docs (snd (ingestion t2 msg (snd (ingestion t1 msg s))))) =
           length (attachment_docs s) + (if attachments (metadata msg) = [] then 0 else 2)"
  using ingestion_valid[OF assms, of t2 "snd (ingestion t1 msg s)"]
        ingestion_valid[OF assms, of t1 s]
  by simp

theorem ingestion_adds_records_witness:
  "valid_event (message_with ''id-1'' [att_a, att_b]) \<and>
   length (submissions_with_id ''id-1''
     (snd (ingestion 1 (message_with ''id-1'' [att_a, att_b])
        (snd (ingestion 0 (message_with ''id-1'' [att_a, att_b]) linked_store))))) = 3 \<and>
   length (attachment_docs
     (snd (ingestion 1 (message_with ''id-1'' [att_a, att_b])
        (snd (ingestion 0 (message_with ''id-1'' [att_a, att_b]) linked_store))))) = 3"
proof -
  have h: "valid_event (message_with ''id-1'' [att_a, att_b])"
    by code_simp
  have n: "length (submissions_with_id ''id-1'' linked_store) = 1"
          "length (attachment_docs linked_store) = 1"
          "id' (metadata (message_with ''id-1'' [att_a, att_b])) = ''id-1''"
          "attachments (metadata (message_with ''id-1'' [att_a, att_b])) \<noteq> []"
    by (simp_all add: submissions_with_id_def linked_store_def message_with_def)
  show ?thesis
    using h n ingestion_adds_records[OF h, of 0 linked_store 1]
    by simp
qed

text \<open>
  C6 at an event without attachments (id \<^verbatim>\<open>id-1\<close>, empty store): the call resolves and
  publishes \<^verbatim>\<open>ingestion_completed\<close>, and the Submission it created still has the status
  \<^verbatim>\<open>ingestion in progress\<close>. The write of \<^verbatim>\<open>ingestion done\<close> is part of the update that links
  the Attachment-set, which only runs for a non-empty list.
\<close>

theorem ingestion_empty_list_status:
  "ingestion 0 (message_with ''id-1'' []) empty_store =
     (Inr [Redis_set ''redis:status:id-1'' (envelope_with ''id-1'' ''ingestion_completed'' []) None,
           Publish ''event.pipeline'' (Envelope (envelope_with ''id-1'' ''ingestion_completed'' [])),
           Publish ''ocr.init'' (Message (message_with ''id-1'' []))],
      \<lparr>submissions = [\<lparr>sub_oid = 0, sub_sender = ''a@b.com'', sub_body = ''body'', sub_id = ''id-1'',
                        sub_attachments = None, sub_status = ''ingestion in progress''\<rparr>],
       attachment_docs = [], next_oid = 1\<rparr>)"
  by (simp add: ingestion_defs message_with_def envelope_with_def empty_store_def)


text \<open>For comparison, the path with attachments: when no stored Submission has the id yet,
  the Submission created by the call ends linked and with the status \<^verbatim>\<open>ingestion done\<close>.\<close>

lemma ingestion_nonempty_status:
  assumes "valid_event msg" and "attachments (metadata msg) \<noteq> []"
      and "submission_findOne (id' (metadata msg)) s = None"
  shows "submission_findOne (id' (metadata msg)) (snd (ingestion now msg s)) =
           Some \<lparr>sub_oid = next_oid s, sub_sender = sender (metadata msg), sub_body = body (metadata msg),
                 sub_id = id' (metadata msg), sub_attachments = Some (Suc (next_oid s)),
                 sub_status = ''ingestion done''\<rparr>"
  using assms
  by (simp add: valid_event_def ingestion_def submission_create_def attachment_create_def
        Let_def submission_updateOne_def submission_findOne_def update_first_append_new
        find_append_new)

section \<open>Extraction\<close>

lemmas ocr_defs =
  processOcr_def ocr_attachment_def after_extraction_def extractTextFromImage_def
  extractTextFromPdf_def inner_extractTextFromImage_def trim_run_def trim_def is_space_def
  startsWith_def submissionTimeout_def enumerate_eq_zip Let_def

lemmas sample_defs =
  sample_env_def att_a_def att_b_def att_c_def att_d_def att_e_def message_with_def
  envelope_with_def

lemma those_Some_map: "those xs = Some ys \<Longrightarrow> xs = map Some ys"
  by (induction xs arbitrary: ys) (auto split: option.splits)

lemma ocr_attachment_frame:
  "ocr_attachment w i att = Some (att', r) \<Longrightarrow> att'\<lparr>text' := None\<rparr> = att\<lparr>text' := None\<rparr>"
  by (auto simp: ocr_attachment_def after_extraction_def
           split: if_splits engine_run.splits settled.splits)

lemma ocr_attachment_image:
  "ocr_attachment w i att = Some (att', r) \<Longrightarrow> includes' (content_type att) ''image'' \<Longrightarrow>
   extractTextFromImage w i (url att) = Settles t (Resolved txt) \<Longrightarrow> text' att' = Some txt"
  by (auto simp: ocr_attachment_def after_extraction_def)

lemma ocr_attachment_pdf:
  "ocr_attachment w i att = Some (att', r) \<Longrightarrow> \<not> includes' (content_type att) ''image'' \<Longrightarrow>
   includes' (content_type att) ''pdf'' \<Longrightarrow>
   extractTextFromPdf w i (url att) = Settles t (Resolved txt) \<Longrightarrow> text' att' = Some txt"
  by (auto simp: ocr_attachment_def after_extraction_def)

lemma ocr_attachment_other:
  "ocr_attachment w i att = Some (att', r) \<Longrightarrow> \<not> includes' (content_type att) ''image'' \<Longrightarrow>
   \<not> includes' (content_type att) ''pdf'' \<Longrightarrow> text' att' = Some []"
  by (auto simp: ocr_attachment_def)

lemma settled_all_nth:
  assumes "those (map (\<lambda>(i, att). f i att) (enumerate 0 atts)) = Some ys"
  shows "length ys = length atts" and "\<And>i. i < length atts \<Longrightarrow> f i (atts ! i) = Some (ys ! i)"
proof -
  have eq: "map (\<lambda>(i, att). f i att) (enumerate 0 atts) = map Some ys"
    using assms by (rule those_Some_map)
  then have "length (map (\<lambda>(i, att). f i att) (enumerate 0 atts)) = length (map Some ys)"
    by simp
  then show len: "length ys = length atts"
    by simp
  fix i assume i: "i < length atts"
  have "map (\<lambda>(i, att). f i att) (enumerate 0 atts) ! i = map Some ys ! i"
    using eq by simp
  then show "f i (atts ! i) = Some (ys ! i)"
    using i len by (simp add: nth_enumerate_eq)
qed

text \<open>
  C7, as stated, fails on the kind of the envelope. For a submission with the one image
  \<^verbatim>\<open>a.png\<close> the stage emits its envelope and its message, and the kind of the envelope
  is \<^verbatim>\<open>ocr_completed\<close>, which is not \<^verbatim>\<open>extraction_completed\<close>.
\<close>

theorem processOcr_kind_is_ocr_completed:
  "processOcr sample_env (message_with ''id-1'' [att_a]) =
     Some (Inr [Redis_set ''ocr:status:id-1''
                  (envelope_with ''id-1'' ''ocr_completed'' [att_a\<lparr>text' := Some ''hello''\<rparr>]) (Some 3600),
                Publish ''event.pipeline''
                  (Envelope (envelope_with ''id-1'' ''ocr_completed'' [att_a\<lparr>text' := Some ''hello''\<rparr>])),
                Publish ''classification.init''
                  (Message (message_with ''id-1'' [att_a\<lparr>text' := Some ''hello''\<rparr>]))]) \<and>
   message (envelope_with ''id-1'' ''ocr_completed'' [att_a\<lparr>text' := Some ''hello''\<rparr>]) \<noteq> ''extraction_completed''"
  by (simp add: ocr_defs sample_defs)

text \<open>
  C7, amended. When the extraction of a submission completes, the stage writes the cache
  entry and emits exactly one envelope to the common channel, of kind \<^verbatim>\<open>ocr_completed\<close>,
  and one message to \<^verbatim>\<open>classification.init\<close>. Both carry the incoming message with its
  full attachment list: the same entries in the same order, changed at most in their
  text, and every image or PDF attachment whose extraction resolved carries the text it
  resolved with.
\<close>

theorem processOcr_emits:
  assumes "processOcr w msg = Some r"
  shows "\<exists>atts'.
           r = Inr [Redis_set (''ocr:status:'' @ id' (metadata msg))
                      \<lparr>event_id = id' (metadata msg), message = ''ocr_completed'',
                       data = msg\<lparr>metadata := (metadata msg)\<lparr>attachments := atts'\<rparr>\<rparr>\<rparr> (Some 3600),
                    Publish ''event.pipeline''
                      (Envelope \<lparr>event_id = id' (metadata msg), message = ''ocr_completed'',
                                 data = msg\<lparr>metadata := (metadata msg)\<lparr>attachments := atts'\<rparr>\<rparr>\<rparr>),
                    Publish ''classification.init''
                      (Message (msg\<lparr>metadata := (metadata msg)\<lparr>attachments := atts'\<rparr>\<rparr>))] \<and>
           map (\<lambda>a. a\<lparr>text' := None\<rparr>) atts' = map (\<lambda>a. a\<lparr>text' := None\<rparr>) (attachments (metadata msg)) \<and>
           (\<forall>i t txt. i < length (attachments (metadata msg)) \<and>
               includes' (content_type (attachments (metadata msg) ! i)) ''image'' \<and>
               extractTextFromImage w i (url (attachments (metadata msg) ! i)) = Settles t (Resolved txt)
               \<longrightarrow> text' (atts' ! i) = Some txt) \<and>
           (\<forall>i t txt. i < length (attachments (metadata msg)) \<and>
               \<not> includes' (content_type (attachments (metadata msg) ! i)) ''image'' \<and>
               includes' (content_type (attachments (metadata msg) ! i)) ''pdf'' \<and>
               extractTextFromPdf w i (url (attachments (metadata msg) ! i)) = Settles t (Resolved txt)
               \<longrightarrow> text' (atts' ! i) = Some txt)"
proof -
  let ?atts = "attachments (metadata msg)"
  obtain ys where ys: "those (map (\<lambda>(i, att). ocr_attachment w i att) (enumerate 0 ?atts)) = Some ys"
    using assms by (auto simp: processOcr_def Let_def split: option.splits)
  have len: "length ys = length ?atts"
    and nth: "\<And>i. i < length ?atts \<Longrightarrow> ocr_attachment w i (?atts ! i) = Some (ys ! i)"
    using settled_all_nth[OF ys] by auto
  have r: "r = Inr [Redis_set (''ocr:status:'' @ id' (metadata msg))
                      \<lparr>event_id = id' (metadata msg), message = ''ocr_completed'',
                       data = msg\<lparr>metadata := (metadata msg)\<lparr>attachments := map fst ys\<rparr>\<rparr>\<rparr> (Some 3600),
                    Publish ''event.pipeline''
                      (Envelope \<lparr>event_id = id' (metadata msg), message = ''ocr_completed'',
                                 data = msg\<lparr>metadata := (metadata msg)\<lparr>attachments := map fst ys\<rparr>\<rparr>\<rparr>),
                    Publish ''classification.init''
                      (Message (msg\<lparr>metadata := (metadata msg)\<lparr>attachments := map fst ys\<rparr>\<rparr>))]"
    using assms ys by (simp add: processOcr_def Let_def)
  have each: "\<And>i. i < length ?atts \<Longrightarrow> ocr_attachment w i (?atts ! i) = Some (fst (ys ! i), snd (ys ! i))"
    using nth by simp
  have frame: "map (\<lambda>a. a\<lparr>text' := None\<rparr>) (map fst ys) = map (\<lambda>a. a\<lparr>text' := None\<rparr>) ?atts"
  proof (rule nth_equalityI)
    show "length (map (\<lambda>a. a\<lparr>text' := None\<rparr>) (map fst ys)) = length (map (\<lambda>a. a\<lparr>text' := None\<rparr>) ?atts)"
      using len by simp
  next
    fix i assume "i < length (map (\<lambda>a. a\<lparr>text' := None\<rparr>) (map fst ys))"
    then have i: "i < length ?atts" using len by simp
    from ocr_attachment_frame[OF each[OF i]] i len
    show "map (\<lambda>a. a\<lparr>text' := None\<rparr>) (map fst ys) ! i = map (\<lambda>a. a\<lparr>text' := None\<rparr>) ?atts ! i"
      by simp
  qed
  have img: "\<forall>i t txt. i < length ?atts \<and> includes' (content_type (?atts ! i)) ''image'' \<and>
               extractTextFromImage w i (url (?atts ! i)) = Settles t (Resolved txt)
               \<longrightarrow> text' (map fst ys ! i) = Some txt"
    using ocr_attachment_image[OF each] len by auto
  have pdf: "\<forall>i t txt. i < length ?atts \<and> \<not> includes' (content_type (?atts ! i)) ''image'' \<and>
               includes' (content_type (?atts ! i)) ''pdf'' \<and>
               extractTextFromPdf w i (url (?atts ! i)) = Settles t (Resolved txt)
               \<longrightarrow> text' (map fst ys ! i) = Some txt"
    using ocr_attachment_pdf[OF each] len by auto
  show ?thesis
    using r frame img pdf by blast
qed


theorem processOcr_emits_witness:
  "processOcr sample_env (message_with ''id-1'' [att_a, att_b]) =
     Some (Inr [Redis_set ''ocr:status:id-1''
                  (envelope_with ''id-1'' ''ocr_completed''
                     [att_a\<lparr>text' := Some ''hello''\<rparr>, att_b\<lparr>text' := Some ''world''\<rparr>]) (Some 3600),
                Publish ''event.pipeline''
                  (Envelope (envelope_with ''id-1'' ''ocr_completed''
                     [att_a\<lparr>text' := Some ''hello''\<rparr>, att_b\<lparr>text' := Some ''world''\<rparr>])),
                Publish ''classification.init''
                  (Message (message_with ''id-1''
                     [att_a\<lparr>text' := Some ''hello''\<rparr>, att_b\<lparr>text' := Some ''world''\<rparr>]))]) \<and>
   (\<exists>atts'. map (\<lambda>a. a\<lparr>text' := None\<rparr>) atts' = map (\<lambda>a. a\<lparr>text' := None\<rparr>) [att_a, att_b] \<and>
            text' (atts' ! 0) = Some ''hello'' \<and> text' (atts' ! 1) = Some ''world'')"
proof -
  let ?m = "message_with ''id-1'' [att_a, att_b]"
  let ?r = "Inr [Redis_set ''ocr:status:id-1''
                  (envelope_with ''id-1'' ''ocr_completed''
                     [att_a\<lparr>text' := Some ''hello''\<rparr>, att_b\<lparr>text' := Some ''world''\<rparr>]) (Some 3600),
                Publish ''event.pipeline''
                  (Envelope (envelope_with ''id-1'' ''ocr_completed''
                     [att_a\<lparr>text' := Some ''hello''\<rparr>, att_b\<lparr>text' := Some ''world''\<rparr>])),
                Publish ''classification.init''
                  (Message (message_with ''id-1''
                     [att_a\<lparr>text' := Some ''hello''\<rparr>, att_b\<lparr>text' := Some ''world''\<rparr>]))]"
  have h: "processOcr sample_env ?m = Some ?r"
    by (simp add: ocr_defs sample_defs)
  have atts: "attachments (metadata ?m) = [att_a, att_b]"
    by (simp add: message_with_def)
  have img: "includes' (content_type ([att_a, att_b] ! 0)) ''image'' \<and>
             extractTextFromImage sample_env 0 (url ([att_a, att_b] ! 0)) = Settles 1200 (Resolved ''hello'')"
    by (simp add: ocr_defs sample_defs)
  have pdf: "\<not> includes' (content_type ([att_a, att_b] ! 1)) ''image'' \<and>
             includes' (content_type ([att_a, att_b] ! 1)) ''pdf'' \<and>
             extractTextFromPdf sample_env 1 (url ([att_a, att_b] ! 1)) = Settles 300 (Resolved ''world'')"
    by (simp add: ocr_defs sample_defs)
  obtain atts' where
    frame: "map (\<lambda>a. a\<lparr>text' := None\<rparr>) atts' = map (\<lambda>a. a\<lparr>text' := None\<rparr>) [att_a, att_b]"
    and i: "\<forall>i t txt. i < length [att_a, att_b] \<and> includes' (content_type ([att_a, att_b] ! i)) ''image'' \<and>
               extractTextFromImage sample_env i (url ([att_a, att_b] ! i)) = Settles t (Resolved txt)
               \<longrightarrow> text' (atts' ! i) = Some txt"
    and p: "\<forall>i t txt. i < length [att_a, att_b] \<and> \<not> includes' (content_type ([att_a, att_b] ! i)) ''image'' \<and>
               includes' (content_type ([att_a, att_b] ! i)) ''pdf'' \<and>
               extractTextFromPdf sample_env i (url ([att_a, att_b] ! i)) = Settles t (Resolved txt)
               \<longrightarrow> text' (atts' ! i) = Some txt"
    using processOcr_emits[OF h] unfolding atts by blast
  have t0: "text' (atts' ! 0) = Some ''hello''"
    using i img by (metis length_Cons zero_less_Suc)
  have t1: "text' (atts' ! 1) = Some ''world''"
    using p pdf by (metis One_nat_def length_Cons lessI list.size(3) numeral_2_eq_2 Suc_1)
  show ?thesis
    using h frame t0 t1 by blast
qed

text \<open>
  C3 at three attachments of which the second, the image \<^verbatim>\<open>c.png\<close>, runs into the 60
  second timeout: the stage completes and emits both messages with the other two
  attachments populated, but the text of the timed-out attachment is not the empty
  string. It is absent, as it was in the incoming message: the \<^verbatim>\<open>catch\<close> branch builds a
  copy with \<^verbatim>\<open>text: ''\<close> that is never used, and the emitted message is the incoming one.
\<close>

theorem processOcr_timed_out_text_unset:
  "extractTextFromImage sample_env 1 (url att_c) = Settles 60000 (Rejected ''OCR Timeout'') \<and>
   processOcr sample_env (message_with ''id-1'' [att_a, att_c, att_b]) =
     Some (Inr [Redis_set ''ocr:status:id-1''
                  (envelope_with ''id-1'' ''ocr_completed''
                     [att_a\<lparr>text' := Some ''hello''\<rparr>, att_c, att_b\<lparr>text' := Some ''world''\<rparr>]) (Some 3600),
                Publish ''event.pipeline''
                  (Envelope (envelope_with ''id-1'' ''ocr_completed''
                     [att_a\<lparr>text' := Some ''hello''\<rparr>, att_c, att_b\<lparr>text' := Some ''world''\<rparr>])),
                Publish ''classification.init''
                  (Message (message_with ''id-1''
                     [att_a\<lparr>text' := Some ''hello''\<rparr>, att_c, att_b\<lparr>text' := Some ''world''\<rparr>]))]) \<and>
   text' att_c = None"
  by (simp add: ocr_defs sample_defs)

text \<open>
  C8 at documents: the call for an image is cut off by the timer after 60000
  milliseconds, but there is no timer around the call for a PDF. When the download of a
  PDF never ends, \<^verbatim>\<open>extractTextFromPdf\<close> never settles and neither does the stage; when
  it ends after 90 seconds, the call settles after 90 seconds with the text.
\<close>

theorem extractTextFromPdf_unbounded:
  "extractTextFromImage sample_env 0 (url att_c) = Settles submissionTimeout (Rejected ''OCR Timeout'') \<and>
   extractTextFromPdf sample_env 0 (url att_d) = Never \<and>
   extractTextFromPdf sample_env 0 (url att_e) = Settles 90000 (Resolved ''late'') \<and>
   processOcr sample_env (message_with ''id-1'' [att_d]) = None"
  by (simp add: ocr_defs sample_defs)

section \<open>The reconciler\<close>

lemma findOne_after_status:
  "submission_findOne i (submission_updateOne i (\<lambda>d. d\<lparr>sub_status := st\<rparr>) s) =
     map_option (\<lambda>d. d\<lparr>sub_status := st\<rparr>) (submission_findOne i s)"
  by (simp add: submission_findOne_def submission_updateOne_def find_update_first)

lemma attachment_findOne_after_set:
  "attachment_findOne oid (attachment_updateOne oid (\<lambda>d. d\<lparr>att_attachments := atts\<rparr>) s) =
     map_option (\<lambda>d. d\<lparr>att_attachments := atts\<rparr>) (attachment_findOne oid s)"
  by (simp add: attachment_findOne_def attachment_updateOne_def find_update_first)

lemma submission_findOne_attachment_updateOne [simp]:
  "submission_findOne i (attachment_updateOne oid f s) = submission_findOne i s"
  by (simp add: submission_findOne_def attachment_updateOne_def)

lemma attachment_findOne_submission_updateOne [simp]:
  "attachment_findOne oid (submission_updateOne i f s) = attachment_findOne oid s"
  by (simp add: attachment_findOne_def submission_updateOne_def)

text \<open>An entry whose classification and confidence have the declared types is cast to
  itself, and a cast list has the length of the list it was made from.\<close>

lemma cast_entry_typed: "schema_typed a \<Longrightarrow> cast_entry w a = Some a"
  by (auto simp: schema_typed_def cast_entry_def castString_def castNumber_def
           split: option.splits json.splits)

lemma cast_attachments_typed: "list_all schema_typed atts \<Longrightarrow> cast_attachments w atts = Some atts"
  by (induction atts) (simp_all add: cast_attachments_def cast_entry_typed)

lemma those_length: "those xs = Some ys \<Longrightarrow> length ys = length xs"
  by (induction xs arbitrary: ys) (auto split: option.splits)

lemma cast_attachments_length: "cast_attachments w atts = Some entries \<Longrightarrow> length entries = length atts"
  by (auto simp: cast_attachments_def dest: those_length)

text \<open>The three ways through \<open>update\<close> once the Submission is found.\<close>

lemma update_linked_cast:
  assumes "submission_findOne (submission_id (metadata (data ev))) s = Some sub"
      and "sub_attachments sub = Some oid"
      and "cast_attachments w (attachments (metadata (data ev))) = Some entries"
  shows "update w ev s =
           (Inr (),
            attachment_updateOne oid (\<lambda>d. d\<lparr>att_attachments := entries\<rparr>)
              (submission_updateOne (submission_id (metadata (data ev)))
                 (\<lambda>d. d\<lparr>sub_status := message ev\<rparr>) s))"
  using assms by (simp add: update_def Let_def findOne_after_status)

lemma update_linked_refused:
  assumes "submission_findOne (submission_id (metadata (data ev))) s = Some sub"
      and "sub_attachments sub = Some oid"
      and "cast_attachments w (attachments (metadata (data ev))) = None"
  shows "update w ev s =
           (Inl CastError,
            submission_updateOne (submission_id (metadata (data ev))) (\<lambda>d. d\<lparr>sub_status := message ev\<rparr>) s)"
  using assms by (simp add: update_def Let_def findOne_after_status)


lemma update_linked_finds:
  assumes "submission_findOne (submission_id (metadata (data ev))) s = Some sub"
      and "sub_attachments sub = Some oid"
      and "attachment_findOne oid s = Some doc"
  shows "submission_findOne (submission_id (metadata (data ev))) (snd (update w ev s)) =
           Some (sub\<lparr>sub_status := message ev\<rparr>)"
    and "cast_attachments w (attachments (metadata (data ev))) = Some entries \<Longrightarrow>
           fst (update w ev s) = Inr () \<and>
           attachment_findOne oid (snd (update w ev s)) = Some (doc\<lparr>att_attachments := entries\<rparr>)"
    and "cast_attachments w (attachments (metadata (data ev))) = None \<Longrightarrow>
           fst (update w ev s) = Inl CastError \<and>
           attachment_findOne oid (snd (update w ev s)) = Some doc"
proof -
  show "submission_findOne (submission_id (metadata (data ev))) (snd (update w ev s)) =
           Some (sub\<lparr>sub_status := message ev\<rparr>)"
  proof (cases "cast_attachments w (attachments (metadata (data ev)))")
    case None
    then show ?thesis
      using assms by (simp add: update_linked_refused[OF assms(1,2)] findOne_after_status)
  next
    case (Some entries)
    then show ?thesis
      using assms by (simp add: update_linked_cast[OF assms(1,2)] findOne_after_status)
  qed
  show "cast_attachments w (attachments (metadata (data ev))) = Some entries \<Longrightarrow>
           fst (update w ev s) = Inr () \<and>
           attachment_findOne oid (snd (update w ev s)) = Some (doc\<lparr>att_attachments := entries\<rparr>)"
    using assms by (simp add: update_linked_cast[OF assms(1,2)] attachment_findOne_after_set)
  show "cast_attachments w (attachments (metadata (data ev))) = None \<Longrightarrow>
           fst (update w ev s) = Inl CastError \<and>
           attachment_findOne oid (snd (update w ev s)) = Some doc"
    using assms by (simp add: update_linked_refused[OF assms(1,2)])
qed

lemma update_linked_keeps_document:
  assumes "submission_findOne (submission_id (metadata (data ev))) s = Some sub"
      and "sub_attachments sub = Some oid"
      and "attachment_findOne oid s = Some doc"
  shows "\<exists>held. attachment_findOne oid (snd (update w ev s)) = Some (doc\<lparr>att_attachments := held\<rparr>)"
proof (cases "cast_attachments w (attachments (metadata (data ev)))")
  case None
  from update_linked_finds(3)[OF assms None]
  have "attachment_findOne oid (snd (update w ev s)) = Some (doc\<lparr>att_attachments := att_attachments doc\<rparr>)"
    by simp
  then show ?thesis by blast
next
  case (Some entries)
  from update_linked_finds(2)[OF assms Some] show ?thesis by blast
qed

text \<open>Evaluation of the reconciler on the examples.\<close>

lemmas reconciler_defs =
  update_def submission_updateOne_def submission_findOne_def attachment_updateOne_def
  attachment_findOne_def cast_attachments_def cast_entry_def castString_def castNumber_def Let_def

lemma number_of_text_high: "number_of_text ''high'' = None"
  by code_simp

lemma number_of_text_decimal: "number_of_text ''0.9'' = Some (9 / 10)"
  by code_simp

lemma number_text_7: "number_text 7 = ''7''"
  by code_simp

text \<open>With the conversions of the examples the cast of an entry turns the classification 7
  into the text \<^verbatim>\<open>7\<close>, the confidence \<^verbatim>\<open>"0.9"\<close> into the number 0.9 and \<^verbatim>\<open>true\<close> into 1, and
  it refuses the confidence \<^verbatim>\<open>"high"\<close>.\<close>

lemma cast_entry_converts:
  "cast_entry sample_env (att_a\<lparr>classification := Some (JNumber 7), confidence := Some (JString ''0.9'')\<rparr>) =
     Some (att_a\<lparr>classification := Some (JString ''7''), confidence := Some (JNumber (9 / 10))\<rparr>)"
  "cast_entry sample_env (att_a\<lparr>confidence := Some (JBool True)\<rparr>) =
     Some (att_a\<lparr>confidence := Some (JNumber 1)\<rparr>)"
  "cast_entry sample_env att_high = None"
  by (simp_all add: cast_entry_def castString_def castNumber_def sample_env_def att_a_def att_high_def
        sample_cast_to_Number_def sample_cast_to_String_def number_of_text_high
        number_of_text_decimal number_text_7)

text \<open>
  C2, as stated, fails. The first stored Submission with the id \<^verbatim>\<open>id-1\<close> is linked to an
  Attachment-set. An envelope with the list A, the single entry \<^verbatim>\<open>c.png\<close>, is reconciled,
  and then one with the list B, whose single entry carries the confidence \<^verbatim>\<open>"high"\<close>. The
  schema cannot cast \<^verbatim>\<open>"high"\<close> to a number: the second call rejects with a \<^verbatim>\<open>CastError\<close>,
  and the Attachment-set still holds A, not B.
\<close>

theorem update_rejected_list_not_stored:
  "fst (update sample_env (envelope_with ''id-1'' ''classification_completed'' [att_high])
          (snd (update sample_env (envelope_with ''id-1'' ''ocr_completed'' [att_c]) linked_store))) =
     Inl CastError \<and>
   attachment_findOne 1
     (snd (update sample_env (envelope_with ''id-1'' ''classification_completed'' [att_high])
            (snd (update sample_env (envelope_with ''id-1'' ''ocr_completed'' [att_c]) linked_store)))) =
     Some \<lparr>att_oid = 1, att_attachments = [att_c]\<rparr> \<and>
   [att_c] \<noteq> [att_high]"
  by (simp add: reconciler_defs envelope_with_def message_with_def linked_store_def sample_env_def
        att_a_def att_c_def att_high_def sample_cast_to_Number_def number_of_text_high)

text \<open>
  C2, amended. The attachment write of the reconciler is a full replace by the list as the
  attachment schema casts it. Take a submission id whose first stored Submission is linked
  to a stored Attachment-set, and reconcile an envelope for that id with attachment list A
  and then one with attachment list B. When the schema casts B, the second call resolves
  and the Attachment-set holds exactly the cast of B, whatever A was and whatever the set
  held before; it holds B itself when in every entry of B the classification is a string
  or absent and the confidence is a number or absent. When the schema refuses an entry of
  B, the second call rejects with a \<^verbatim>\<open>CastError\<close> and the Attachment-set holds what it held
  after the first call.
\<close>

theorem update_replaces_with_cast_list:
  assumes "submission_findOne sid s = Some sub"
      and "sub_attachments sub = Some oid"
      and "attachment_findOne oid s = Some doc"
      and "submission_id (metadata (data evA)) = sid"
      and "submission_id (metadata (data evB)) = sid"
  shows "(\<forall>entries. cast_attachments w (attachments (metadata (data evB))) = Some entries \<longrightarrow>
            fst (update w evB (snd (update w evA s))) = Inr () \<and>
            attachment_findOne oid (snd (update w evB (snd (update w evA s)))) =
              Some (doc\<lparr>att_attachments := entries\<rparr>)) \<and>
         (list_all schema_typed (attachments (metadata (data evB))) \<longrightarrow>
            fst (update w evB (snd (update w evA s))) = Inr () \<and>
            attachment_findOne oid (snd (update w evB (snd (update w evA s)))) =
              Some (doc\<lparr>att_attachments := attachments (metadata (data evB))\<rparr>)) \<and>
         (cast_attachments w (attachments (metadata (data evB))) = None \<longrightarrow>
            fst (update w evB (snd (update w evA s))) = Inl CastError \<and>
            attachment_findOne oid (snd (update w evB (snd (update w evA s)))) =
              attachment_findOne oid (snd (update w evA s)))"
proof -
  let ?s1 = "snd (update w evA s)"
  have findA: "submission_findOne (submission_id (metadata (data evA))) s = Some sub"
    using assms(1,4) by simp
  have sub1: "submission_findOne (submission_id (metadata (data evB))) ?s1 =
                Some (sub\<lparr>sub_status := message evA\<rparr>)"
    using update_linked_finds(1)[OF findA assms(2,3)] assms(4,5) by simp
  have ref1: "sub_attachments (sub\<lparr>sub_status := message evA\<rparr>) = Some oid"
    using assms(2) by simp
  obtain held where doc1: "attachment_findOne oid ?s1 = Some (doc\<lparr>att_attachments := held\<rparr>)"
    using update_linked_keeps_document[OF findA assms(2,3)] by blast
  have cast: "\<forall>entries. cast_attachments w (attachments (metadata (data evB))) = Some entries \<longrightarrow>
            fst (update w evB ?s1) = Inr () \<and>
            attachment_findOne oid (snd (update w evB ?s1)) = Some (doc\<lparr>att_attachments := entries\<rparr>)"
    using update_linked_finds(2)[OF sub1 ref1 doc1] by simp
  have typed: "list_all schema_typed (attachments (metadata (data evB))) \<longrightarrow>
            fst (update w evB ?s1) = Inr () \<and>
            attachment_findOne oid (snd (update w evB ?s1)) =
              Some (doc\<lparr>att_attachments := attachments (metadata (data evB))\<rparr>)"
    using cast cast_attachments_typed by blast
  have refused: "cast_attachments w (attachments (metadata (data evB))) = None \<longrightarrow>
            fst (update w evB ?s1) = Inl CastError \<and>
            attachment_findOne oid (snd (update w evB ?s1)) = attachment_findOne oid ?s1"
    using update_linked_finds(3)[OF sub1 ref1 doc1] doc1 by simp
  show ?thesis
    using cast typed refused by blast
qed

theorem update_replaces_with_cast_list_witness:
  "submission_findOne ''id-1'' linked_store = Some (hd (submissions linked_store)) \<and>
   list_all schema_typed
     [att_b\<lparr>classification := Some (JString ''receipt''), confidence := Some (JNumber (9 / 10))\<rparr>] \<and>
   fst (update sample_env
          (envelope_with ''id-1'' ''classification_completed''
             [att_b\<lparr>classification := Some (JString ''receipt''), confidence := Some (JNumber (9 / 10))\<rparr>])
          (snd (update sample_env (envelope_with ''id-1'' ''ocr_completed'' [att_a, att_a]) linked_store))) =
     Inr () \<and>
   attachment_findOne 1
     (snd (update sample_env
             (envelope_with ''id-1'' ''classification_completed''
                [att_b\<lparr>classification := Some (JString ''receipt''), confidence := Some (JNumber (9 / 10))\<rparr>])
             (snd (update sample_env (envelope_with ''id-1'' ''ocr_completed'' [att_a, att_a]) linked_store)))) =
     Some \<lparr>att_oid = 1,
           att_attachments =
             [att_b\<lparr>classification := Some (JString ''receipt''), confidence := Some (JNumber (9 / 10))\<rparr>]\<rparr>"
proof -
  let ?B = "[att_b\<lparr>classification := Some (JString ''receipt''), confidence := Some (JNumber (9 / 10))\<rparr>]"
  have h1: "submission_findOne ''id-1'' linked_store = Some (hd (submissions linked_store))"
    by (simp add: submission_findOne_def linked_store_def)
  have h2: "sub_attachments (hd (submissions linked_store)) = Some 1"
    by (simp add: linked_store_def)
  have h3: "attachment_findOne 1 linked_store = Some \<lparr>att_oid = 1, att_attachments = [att_a, att_b]\<rparr>"
    by (simp add: attachment_findOne_def linked_store_def)
  have h4: "submission_id (metadata (data (envelope_with ''id-1'' ''ocr_completed'' [att_a, att_a]))) = ''id-1''"
    by (simp add: envelope_with_def message_with_def)
  have h5: "submission_id (metadata (data (envelope_with ''id-1'' ''classification_completed'' ?B))) = ''id-1''"
    by (simp add: envelope_with_def message_with_def)
  have typed: "list_all schema_typed ?B"
    by (simp add: schema_typed_def)
  have atts: "attachments (metadata (data (envelope_with ''id-1'' ''classification_completed'' ?B))) = ?B"
    by (simp add: envelope_with_def message_with_def)
  show ?thesis
    using h1 typed update_replaces_with_cast_list[OF h1 h2 h3 h4 h5, of sample_env]
    unfolding atts by simp
qed

text \<open>
  C4. Reconciling an envelope whose submission id matches no stored Submission changes
  nothing: the call resolves, and the store after the call is the store before it, so no
  Submission and no Attachment-set is created.
\<close>

theorem update_missing_submission_noop:
  assumes "submission_findOne (submission_id (metadata (data ev))) s = None"
  shows "update w ev s = (Inr (), s)"
  using assms
  by (simp add: update_def submission_findOne_def submission_updateOne_def update_first_no_match)

theorem update_missing_submission_noop_witness:
  "submission_findOne ''id-2'' linked_store = None \<and>
   update sample_env (envelope_with ''id-2'' ''ocr_completed'' [att_a]) linked_store = (Inr (), linked_store)"
proof -
  have h: "submission_findOne (submission_id (metadata (data (envelope_with ''id-2'' ''ocr_completed'' [att_a])))) linked_store = None"
    by (simp add: submission_findOne_def linked_store_def envelope_with_def message_with_def)
  show ?thesis
    using h update_missing_submission_noop[OF h, of sample_env]
    by (simp add: envelope_with_def message_with_def)
qed



section \<open>Classification\<close>

text \<open>What \<open>trim\<close> does to a text that already starts and ends with other characters than
  white space, and to a trimmed text followed by a line feed.\<close>

lemma tick_not_space: "\<not> is_space (CHR 0x60)"
  by (simp add: is_space_def)

lemma newline_is_space: "is_space (CHR 0x0A)"
  by (simp add: is_space_def)

lemma dropWhile_rev_keep:
  "s \<noteq> [] \<Longrightarrow> \<not> is_space (last s) \<Longrightarrow> dropWhile is_space (rev s) = rev s"
  by (induction s rule: rev_induct) simp_all

lemma trim_fixed:
  assumes "s \<noteq> []" and "\<not> is_space (hd s)" and "\<not> is_space (last s)"
  shows "trim s = s"
proof -
  have front: "dropWhile is_space s = s"
    using assms(1,2) by (cases s) simp_all
  have rear: "dropWhile is_space (rev s) = rev s"
    using assms(1,3) by (rule dropWhile_rev_keep)
  show ?thesis
    by (simp add: trim_def front rear)
qed

lemma trim_length: "length (trim s) \<le> length (dropWhile is_space s)"
proof -
  have "length (trim s) = length (dropWhile is_space (rev (dropWhile is_space s)))"
    by (simp add: trim_def)
  also have "\<dots> \<le> length (rev (dropWhile is_space s))"
    by (rule length_dropWhile_le)
  finally show ?thesis by simp
qed

lemma trimmed_ends:
  assumes "trim s = s" and "s \<noteq> []"
  shows "\<not> is_space (hd s)" and "\<not> is_space (last s)"
proof -
  show front: "\<not> is_space (hd s)"
  proof
    assume sp: "is_space (hd s)"
    obtain x xs where s: "s = x # xs"
      using assms(2) by (cases s) auto
    have "length (dropWhile is_space s) \<le> length xs"
      using sp s by (simp add: length_dropWhile_le)
    then have "length (trim s) < length s"
      using trim_length[of s] s by simp
    then show False
      using assms(1) by simp
  qed
  show "\<not> is_space (last s)"
  proof
    assume sp: "is_space (last s)"
    have keep: "dropWhile is_space s = s"
      using front assms(2) by (cases s) simp_all
    obtain y ys where r: "rev s = y # ys"
      using assms(2) by (cases "rev s") auto
    have y: "y = last s"
      using r assms(2) by (metis hd_rev list.sel(1))
    have "length (dropWhile is_space (y # ys)) \<le> length ys"
      using sp y by (simp add: length_dropWhile_le)
    then have short: "length (dropWhile is_space (rev s)) \<le> length ys"
      by (simp only: r)
    have "length s = Suc (length ys)"
      using r by (metis length_rev length_Cons)
    moreover have "length (trim s) = length (dropWhile is_space (rev s))"
      by (simp add: trim_def keep)
    ultimately have "length (trim s) < length s"
      using short by simp
    then show False
      using assms(1) by simp
  qed
qed

lemma trim_drops_final_newline:
  assumes "trim inner = inner"
  shows "trim (inner @ [CHR 0x0A]) = inner"
proof (cases "inner = []")
  case True
  then show ?thesis
    by (simp add: trim_def newline_is_space)
next
  case False
  have front: "\<not> is_space (hd inner)" and rear: "\<not> is_space (last inner)"
    using trimmed_ends[OF assms False] by auto
  have keep: "dropWhile is_space (inner @ [CHR 0x0A]) = inner @ [CHR 0x0A]"
    using front False by (cases inner) simp_all
  have "dropWhile is_space (rev inner) = rev inner"
    using False rear by (rule dropWhile_rev_keep)
  then show ?thesis
    by (simp add: trim_def keep newline_is_space)
qed

text \<open>The replacement of fences on a block: an opening fence with a tag of letters and a
  line feed, a content without grave accents, a line feed and a closing fence.\<close>

lemma startsWith_fence_hd: "startsWith (c # cs) fence \<Longrightarrow> c = CHR 0x60"
  by (simp add: startsWith_def fence_def)

lemma replace_fences_without_tick:
  "CHR 0x60 \<notin> set inner \<Longrightarrow> replace_fences (inner @ rest) = inner @ replace_fences rest"
proof (induction inner)
  case Nil
  then show ?case by simp
next
  case (Cons b bs)
  then have "\<not> startsWith (b # bs @ rest) fence"
    using startsWith_fence_hd by fastforce
  then show ?case
    using Cons by simp
qed

lemma replace_fences_closing: "replace_fences (CHR 0x0A # fence) = [CHR 0x0A]"
  by (simp add: fence_def startsWith_def drop_newline_def)

lemma newline_not_letter: "\<not> is_letter (CHR 0x0A)"
  by (simp add: is_letter_def)

lemma replace_fences_opening:
  assumes "list_all is_letter tag"
  shows "replace_fences (fence @ tag @ CHR 0x0A # rest) = replace_fences rest"
proof -
  have "dropWhile is_letter (tag @ CHR 0x0A # rest) = CHR 0x0A # rest"
    using assms newline_not_letter by (simp add: dropWhile_append2 list_all_iff)
  then show ?thesis
    by (simp add: fence_def startsWith_def drop_newline_def)
qed

lemma replace_final_fence_other_end:
  assumes "s \<noteq> []" and "last s \<noteq> CHR 0x60"
  shows "replace_final_fence s = s"
proof -
  have "drop (length s - 3) s \<noteq> fence"
  proof
    assume eq: "drop (length s - 3) s = fence"
    have "last (drop (length s - 3) s) = last s"
      using assms(1) by (simp add: last_drop)
    then show False
      using eq assms(2) by (simp add: fence_def)
  qed
  then show ?thesis
    by (simp add: replace_final_fence_def)
qed

lemma trim_fenced:
  "trim (fence @ tag @ [CHR 0x0A] @ inner @ [CHR 0x0A] @ fence) =
     fence @ tag @ [CHR 0x0A] @ inner @ [CHR 0x0A] @ fence"
proof -
  let ?r = "fence @ tag @ [CHR 0x0A] @ inner @ [CHR 0x0A] @ fence"
  have r: "?r \<noteq> []"
    by (simp add: fence_def)
  have "hd ?r = CHR 0x60" and "last ?r = CHR 0x60"
    by (simp_all add: fence_def)
  then show ?thesis
    using trim_fixed[OF r] tick_not_space by simp
qed

lemma strip_fenced:
  assumes "list_all is_letter tag" and "CHR 0x60 \<notin> set inner" and "trim inner = inner"
  shows "trim (replace_final_fence (replace_fences (fence @ tag @ [CHR 0x0A] @ inner @ [CHR 0x0A] @ fence))) =
           inner"
proof -
  let ?r = "fence @ tag @ [CHR 0x0A] @ inner @ [CHR 0x0A] @ fence"
  have "replace_fences ?r = replace_fences (inner @ CHR 0x0A # fence)"
    using replace_fences_opening[OF assms(1), of "inner @ [CHR 0x0A] @ fence"] by simp
  also have "\<dots> = inner @ [CHR 0x0A]"
    by (simp only: replace_fences_without_tick[OF assms(2)] replace_fences_closing)
  finally have stripped: "replace_fences ?r = inner @ [CHR 0x0A]" .
  have final: "replace_final_fence (inner @ [CHR 0x0A]) = inner @ [CHR 0x0A]"
    by (rule replace_final_fence_other_end) simp_all
  show ?thesis
    using stripped final trim_drops_final_newline[OF assms(3)] by simp
qed

text \<open>The text handed to \<^verbatim>\<open>JSON.parse\<close>, for a fenced block, for a response without a fence,
  and for a response without text.\<close>

lemma trim_empty: "trim [] = []"
  by (simp add: trim_def)

lemma cleaned_output_trimmed:
  "trim t \<noteq> [] \<Longrightarrow>
   cleaned_output (Some t) =
     (if startsWith (trim t) fence then trim (replace_final_fence (replace_fences (trim t)))
      else trim t)"
  using trim_empty by (auto simp: cleaned_output_def Let_def)

lemma cleaned_output_fenced:
  assumes "trim t = fence @ tag @ [CHR 0x0A] @ inner @ [CHR 0x0A] @ fence"
      and "list_all is_letter tag" and "CHR 0x60 \<notin> set inner" and "trim inner = inner"
  shows "cleaned_output (Some t) = inner"
proof -
  have filled: "trim t \<noteq> []"
    using assms(1) by (simp add: fence_def)
  have starts: "startsWith (trim t) fence"
    using assms(1) by (simp add: startsWith_def)
  show ?thesis
    using cleaned_output_trimmed[OF filled] starts strip_fenced[OF assms(2,3,4)] assms(1) by simp
qed



text \<open>Evaluation of the examples.\<close>

lemma parse_reply_95:
  \<open>parse_json ''{"type":"invoice","confidence":95}'' =
     Some (JObject [(''type'', JString ''invoice''), (''confidence'', JNumber 95)])\<close>
  by code_simp

lemma parse_reply_high:
  \<open>parse_json ''{"type":"invoice","confidence":"high"}'' =
     Some (JObject [(''type'', JString ''invoice''), (''confidence'', JString ''high'')])\<close>
  by code_simp

lemma parse_reply_prose: "parse_json ''This looks like an invoice.'' = None"
  by code_simp

lemma parse_not_json: "parse_json ''not json'' = None"
  by code_simp

lemma parse_reply_null: "parse_json ''null'' = Some JNull"
  by code_simp

lemma cleaned_95:
  \<open>cleaned_output (Some ''{"type":"invoice","confidence":95}'') = ''{"type":"invoice","confidence":95}''\<close>
  by (simp add: cleaned_output_def trim_def is_space_def startsWith_def fence_def Let_def)

lemma cleaned_high:
  \<open>cleaned_output (Some ''{"type":"invoice","confidence":"high"}'') =
     ''{"type":"invoice","confidence":"high"}''\<close>
  by (simp add: cleaned_output_def trim_def is_space_def startsWith_def fence_def Let_def)

lemma cleaned_prose:
  "cleaned_output (Some ''This looks like an invoice.'') = ''This looks like an invoice.''"
  by (simp add: cleaned_output_def trim_def is_space_def startsWith_def fence_def Let_def)

lemma cleaned_null: "cleaned_output (Some ''null'') = ''null''"
  by (simp add: cleaned_output_def trim_def is_space_def startsWith_def fence_def Let_def)

lemma fenced_prose_parts:
  "list_all is_letter ''text''" "CHR 0x60 \<notin> set ''not json''" "trim ''not json'' = ''not json''"
  by (simp_all add: is_letter_def trim_def is_space_def)

lemma trim_fenced_prose:
  "trim fenced_prose = fence @ ''text'' @ [CHR 0x0A] @ ''not json'' @ [CHR 0x0A] @ fence"
  unfolding fenced_prose_def by (rule trim_fenced)

lemma cleaned_fenced_prose: "cleaned_output (Some fenced_prose) = ''not json''"
  using trim_fenced_prose by (rule cleaned_output_fenced) (rule fenced_prose_parts)+

lemmas classification_defs =
  processClassification_def classify_file_def classify_def text_or_empty_def property_def
  fallback_def enumerate_eq_zip Let_def engine_failed_def engine_answered_def

lemmas classification_sample_facts =
  parse_reply_95 parse_reply_prose parse_reply_null parse_reply_high parse_not_json
  cleaned_95 cleaned_prose cleaned_null cleaned_high cleaned_fenced_prose

text \<open>What \<open>classify\<close> and one callback make of a failure and of an answer, and the
  responses on which the engine fails.\<close>

lemma engine_failed_classify:
  "engine_failed w i file \<Longrightarrow> classify w i (text_or_empty file) = Some fallback"
  by (auto simp: engine_failed_def classify_def split: genai_run.splits option.splits)

lemma fallback_members:
  "property ''type'' fallback = Some (JString ''unknown'')"
  "property ''confidence'' fallback = Some (JNumber 0)"
  "fallback \<noteq> JNull"
  by (simp_all add: property_def fallback_def)

lemma engine_failed_step:
  "engine_failed w i file \<Longrightarrow>
   classify_file w i file =
     Done (file\<lparr>classification := Some (JString ''unknown''), confidence := Some (JNumber 0)\<rparr>)"
  by (simp add: classify_file_def engine_failed_classify fallback_members)






text \<open>When no callback throws and none is pending, every callback has returned its entry.\<close>

lemma all_done:
  "Thrown \<notin> set steps \<Longrightarrow> Pending \<notin> set steps \<Longrightarrow> steps = map Done (done_values steps)"
proof (induction steps)
  case Nil
  then show ?case by simp
next
  case (Cons r rs)
  then show ?case by (cases r) auto
qed

lemma steps_nth:
  "i < length atts \<Longrightarrow>
   map (\<lambda>(i, file). classify_file w i file) (enumerate 0 atts) ! i = classify_file w i (atts ! i)"
  by (simp add: nth_enumerate_eq)


lemma emitted_envelope:
  assumes "processClassification w msg = Some (Inr effs)"
      and "Publish ''event.pipeline'' (Envelope ev) \<in> set effs"
  shows "Thrown \<notin> set (map (\<lambda>(i, file). classify_file w i file) (enumerate 0 (attachments (metadata msg))))"
    and "Pending \<notin> set (map (\<lambda>(i, file). classify_file w i file) (enumerate 0 (attachments (metadata msg))))"
    and "ev = \<lparr>event_id = id' (metadata msg), message = ''classification_completed'',
               data = msg\<lparr>metadata := (metadata msg)
                        \<lparr>attachments := done_values
                           (map (\<lambda>(i, file). classify_file w i file)
                              (enumerate 0 (attachments (metadata msg))))\<rparr>\<rparr>\<rparr>"
  using assms
  by (auto simp: processClassification_def Let_def split: if_splits)

lemma done_steps_nth:
  assumes "Thrown \<notin> set (map (\<lambda>(i, file). classify_file w i file) (enumerate 0 atts))"
      and "Pending \<notin> set (map (\<lambda>(i, file). classify_file w i file) (enumerate 0 atts))"
  shows "length (done_values (map (\<lambda>(i, file). classify_file w i file) (enumerate 0 atts))) = length atts"
    and "i < length atts \<Longrightarrow>
         classify_file w i (atts ! i) =
           Done (done_values (map (\<lambda>(i, file). classify_file w i file) (enumerate 0 atts)) ! i)"
proof -
  let ?steps = "map (\<lambda>(i, file). classify_file w i file) (enumerate 0 atts)"
  have steps: "?steps = map Done (done_values ?steps)"
    using all_done[OF assms] .
  have "length (map Done (done_values ?steps)) = length ?steps"
    using steps by simp
  then show len: "length (done_values ?steps) = length atts"
    by simp
  assume i: "i < length atts"
  have "?steps ! i = map Done (done_values ?steps) ! i"
    using steps by simp
  then have "?steps ! i = Done (done_values ?steps ! i)"
    using i len by simp
  then show "classify_file w i (atts ! i) = Done (done_values ?steps ! i)"
    using steps_nth[OF i, of w] by simp
qed

lemma classify_file_Done:
  "classify_file w i file = Done a \<Longrightarrow>
   \<exists>v. classify w i (text_or_empty file) = Some v \<and> v \<noteq> JNull \<and>
       a = file\<lparr>classification := property ''type'' v, confidence := property ''confidence'' v\<rparr>"
  by (auto simp: classify_file_def split: option.splits if_splits)

lemma classify_parsed:
  "generateContent w i (prompt txt) = Reply r \<Longrightarrow> JSON_parse w (cleaned_output r) = Some v \<Longrightarrow>
   classify w i txt = Some v"
  by (simp add: classify_def)

text \<open>The cast of a list, entry by entry.\<close>

lemma those_nth: "those xs = Some ys \<Longrightarrow> i < length xs \<Longrightarrow> xs ! i = Some (ys ! i)"
proof (induction xs arbitrary: ys i)
  case Nil
  then show ?case by simp
next
  case (Cons x xs)
  then show ?case by (cases i) (auto split: option.splits)
qed

lemma cast_attachments_nth:
  "cast_attachments w atts = Some entries \<Longrightarrow> i < length atts \<Longrightarrow>
   cast_entry w (atts ! i) = Some (entries ! i)"
  using those_nth[of "map (cast_entry w) atts" entries i] by (simp add: cast_attachments_def)

lemma cast_entry_confidence:
  "cast_entry w a = Some b \<Longrightarrow> castNumber w (confidence a) = Some (confidence b)"
  by (auto simp: cast_entry_def split: option.splits)

lemma cast_entry_refused:
  "castNumber w (confidence a) = None \<Longrightarrow> cast_entry w a = None"
  by (auto simp: cast_entry_def split: option.splits)

lemma cast_attachments_refused:
  "i < length atts \<Longrightarrow> cast_entry w (atts ! i) = None \<Longrightarrow> cast_attachments w atts = None"
proof (cases "cast_attachments w atts")
  case None
  then show ?thesis by simp
next
  case (Some entries)
  assume "i < length atts" and "cast_entry w (atts ! i) = None"
  then show ?thesis
    using cast_attachments_nth[OF Some, of i] by simp
qed

lemma castNumber_number: "castNumber w (Some (JNumber q)) = Some (Some (JNumber q))"
  by (simp add: castNumber_def)

lemma confidence_in_range_number: "confidence_in_range (Some (JNumber q)) = (0 \<le> q \<and> q \<le> 1)"
  by (simp add: confidence_in_range_def)




text \<open>A response that is the JSON text \<^verbatim>\<open>null\<close> is left out of the amended C5:
  \<^verbatim>\<open>JSON.parse\<close> accepts it, \<open>classify\<close>, declared to return an object with a type and a
  confidence, returns it, and reading its \<^verbatim>\<open>type\<close> throws outside the \<^verbatim>\<open>try\<close> of \<open>classify\<close>,
  which aborts the stage.\<close>

lemma processClassification_null_reply_aborts:
  "processClassification sample_env (message_with ''id-1'' [att_a, att_c, att_b, att_d]) =
     Some (Inl (InternalServerErrorException ''Classification processing failed''))"
  by (simp add: classification_defs classification_sample_facts sample_env_def message_with_def)

text \<open>A JSON object wrapped in a code fence is unwrapped before it is parsed, and
  \<open>classify\<close> returns the object.\<close>

lemma fenced_reply_parts:
  \<open>list_all is_letter ''json''\<close>
  \<open>CHR 0x60 \<notin> set ''{"type":"receipt","confidence":0.9}''\<close>
  \<open>trim ''{"type":"receipt","confidence":0.9}'' = ''{"type":"receipt","confidence":0.9}''\<close>
  by (simp_all add: is_letter_def trim_def is_space_def)

lemma cleaned_fenced:
  \<open>cleaned_output (Some fenced_reply) = ''{"type":"receipt","confidence":0.9}''\<close>
proof -
  have \<open>trim fenced_reply =
          fence @ ''json'' @ [CHR 0x0A] @ ''{"type":"receipt","confidence":0.9}'' @ [CHR 0x0A] @ fence\<close>
    unfolding fenced_reply_def by (rule trim_fenced)
  then show ?thesis
    by (rule cleaned_output_fenced) (rule fenced_reply_parts)+
qed

lemma parse_reply_receipt:
  \<open>parse_json ''{"type":"receipt","confidence":0.9}'' =
     Some (JObject [(''type'', JString ''receipt''), (''confidence'', JNumber (9 / 10))])\<close>
  by code_simp

lemma classify_fenced_reply:
  "classify (sample_env\<lparr>generateContent := (\<lambda>i p. Reply (Some fenced_reply))\<rparr>) 0 ''some text'' =
     Some (JObject [(''type'', JString ''receipt''), (''confidence'', JNumber (9 / 10))])"
  by (simp add: classify_def sample_env_def cleaned_fenced parse_reply_receipt)

text \<open>When the engine answers with the confidence \<^verbatim>\<open>"high"\<close>, the stage emits the entry with
  that confidence, and the reconciler rejects the envelope and leaves the stored list as
  it was.\<close>

lemma processClassification_emits_uncastable:
  "processClassification high_env (message_with ''id-1'' [att_a]) =
     Some (Inr [Redis_set ''redis:status:id-1''
                  (envelope_with ''id-1'' ''classification_completed'' [att_high]) None,
                Publish ''event.pipeline''
                  (Envelope (envelope_with ''id-1'' ''classification_completed'' [att_high]))])"
  by (simp add: classification_defs classification_sample_facts high_env_def sample_env_def
        message_with_def envelope_with_def att_high_def)

lemma update_uncastable_rejected:
  "fst (update high_env (envelope_with ''id-1'' ''classification_completed'' [att_high]) linked_store) =
     Inl CastError \<and>
   attachment_findOne 1
     (snd (update high_env (envelope_with ''id-1'' ''classification_completed'' [att_high]) linked_store)) =
     Some \<lparr>att_oid = 1, att_attachments = [att_a, att_b]\<rparr>"
  by (simp add: reconciler_defs envelope_with_def message_with_def linked_store_def high_env_def
        sample_env_def att_a_def att_high_def sample_cast_to_Number_def number_of_text_high)

text \<open>
  C9, as stated, fails. The engine answers the one attachment of a submission with
  \<^verbatim>\<open>{"type":"invoice","confidence":95}\<close>; the stage emits the envelope with confidence 95
  on the entry, the reconciler writes the entry into the linked Attachment-set, and 95
  is not within 0 to 1.
\<close>

theorem stored_confidence_out_of_range:
  \<open>generateContent sample_env 0 (prompt (text_or_empty (att_a\<lparr>text' := Some ''hello''\<rparr>))) =
     Reply (Some ''{"type":"invoice","confidence":95}'') \<and>
   processClassification sample_env (message_with ''id-1'' [att_a\<lparr>text' := Some ''hello''\<rparr>]) =
     Some (Inr [Redis_set ''redis:status:id-1''
                  (envelope_with ''id-1'' ''classification_completed''
                     [att_a\<lparr>text' := Some ''hello'', classification := Some (JString ''invoice''),
                            confidence := Some (JNumber 95)\<rparr>]) None,
                Publish ''event.pipeline''
                  (Envelope (envelope_with ''id-1'' ''classification_completed''
                     [att_a\<lparr>text' := Some ''hello'', classification := Some (JString ''invoice''),
                            confidence := Some (JNumber 95)\<rparr>]))]) \<and>
   fst (update sample_env
          (envelope_with ''id-1'' ''classification_completed''
             [att_a\<lparr>text' := Some ''hello'', classification := Some (JString ''invoice''),
                    confidence := Some (JNumber 95)\<rparr>]) linked_store) = Inr () \<and>
   attachment_findOne 1
     (snd (update sample_env
             (envelope_with ''id-1'' ''classification_completed''
                [att_a\<lparr>text' := Some ''hello'', classification := Some (JString ''invoice''),
                       confidence := Some (JNumber 95)\<rparr>]) linked_store)) =
     Some \<lparr>att_oid = 1,
           att_attachments = [att_a\<lparr>text' := Some ''hello'', classification := Some (JString ''invoice''),
                                     confidence := Some (JNumber 95)\<rparr>]\<rparr> \<and>
   \<not> confidence_in_range (Some (JNumber 95))\<close>
  by (simp add: classification_defs classification_sample_facts sample_env_def message_with_def
        envelope_with_def att_a_def linked_store_def reconciler_defs confidence_in_range_def)

text \<open>
  C9, amended. The pipeline stores the confidence of the classification engine as the
  \<^verbatim>\<open>Number\<close> cast of the attachment schema leaves it, without a check of the range. When the
  classification stage completes and its envelope is reconciled into a Submission with a
  linked Attachment-set, the reconciler either resolves, or rejects with a \<^verbatim>\<open>CastError\<close>
  and leaves the stored list as it was; it rejects whenever the \<^verbatim>\<open>confidence\<close> member of a
  parsed response cannot be cast to a number. When it resolves, the stored list has one
  entry per attachment. The confidence of an entry is 0 when the engine failed on the
  attachment, and otherwise the cast of the \<^verbatim>\<open>confidence\<close> member of the response, cleaned
  of code fences and parsed: for a member that is a number the stored confidence is that
  number, so it is within 0 to 1 exactly when the number of the engine is.
\<close>

theorem stored_confidence_is_cast_engine_value:
  assumes "processClassification w msg = Some (Inr effs)"
      and "Publish ''event.pipeline'' (Envelope ev) \<in> set effs"
      and "submission_findOne (submission_id (metadata msg)) s = Some sub"
      and "sub_attachments sub = Some oid"
      and "attachment_findOne oid s = Some doc"
  shows "(fst (update w ev s) = Inr () \<or>
          fst (update w ev s) = Inl CastError \<and>
          attachment_findOne oid (snd (update w ev s)) = Some doc) \<and>
         (\<forall>i<length (attachments (metadata msg)). \<forall>r v.
            generateContent w i (prompt (text_or_empty (attachments (metadata msg) ! i))) = Reply r \<and>
            JSON_parse w (cleaned_output r) = Some v \<and>
            castNumber w (property ''confidence'' v) = None \<longrightarrow>
              fst (update w ev s) = Inl CastError \<and>
              attachment_findOne oid (snd (update w ev s)) = Some doc) \<and>
         (fst (update w ev s) = Inr () \<longrightarrow>
            (\<exists>stored.
               attachment_findOne oid (snd (update w ev s)) = Some (doc\<lparr>att_attachments := stored\<rparr>) \<and>
               length stored = length (attachments (metadata msg)) \<and>
               (\<forall>i<length (attachments (metadata msg)).
                  (engine_failed w i (attachments (metadata msg) ! i) \<longrightarrow>
                     confidence (stored ! i) = Some (JNumber 0)) \<and>
                  (\<forall>r v. generateContent w i (prompt (text_or_empty (attachments (metadata msg) ! i))) =
                           Reply r \<and>
                         JSON_parse w (cleaned_output r) = Some v \<longrightarrow>
                     castNumber w (property ''confidence'' v) = Some (confidence (stored ! i)) \<and>
                     (\<forall>q. property ''confidence'' v = Some (JNumber q) \<longrightarrow>
                        confidence (stored ! i) = Some (JNumber q) \<and>
                        confidence_in_range (confidence (stored ! i)) = (0 \<le> q \<and> q \<le> 1))))))"
proof -
  let ?atts = "attachments (metadata msg)"
  let ?steps = "map (\<lambda>(i, file). classify_file w i file) (enumerate 0 ?atts)"
  let ?emitted = "done_values ?steps"
  have nothrow: "Thrown \<notin> set ?steps" and nopending: "Pending \<notin> set ?steps"
    and ev: "ev = \<lparr>event_id = id' (metadata msg), message = ''classification_completed'',
                   data = msg\<lparr>metadata := (metadata msg)\<lparr>attachments := ?emitted\<rparr>\<rparr>\<rparr>"
    using emitted_envelope[OF assms(1,2)] by auto
  have len: "length ?emitted = length ?atts"
    using done_steps_nth(1)[OF nothrow nopending] .
  have step: "classify_file w i (?atts ! i) = Done (?emitted ! i)" if "i < length ?atts" for i
    using done_steps_nth(2)[OF nothrow nopending that] .
  have sid: "submission_id (metadata (data ev)) = submission_id (metadata msg)"
    and payload: "attachments (metadata (data ev)) = ?emitted"
    using ev by simp_all
  have found: "submission_findOne (submission_id (metadata (data ev))) s = Some sub"
    using assms(3) sid by simp
  note written = update_linked_finds(2)[OF found assms(4,5), of w, unfolded payload]
  note refused = update_linked_finds(3)[OF found assms(4,5), of w, unfolded payload]
  have parsed: "confidence (?emitted ! i) = property ''confidence'' v"
    if i: "i < length ?atts"
      and r: "generateContent w i (prompt (text_or_empty (?atts ! i))) = Reply r"
      and v: "JSON_parse w (cleaned_output r) = Some v" for i r v
  proof -
    have "classify w i (text_or_empty (?atts ! i)) = Some v"
      using classify_parsed[OF r v] .
    then show ?thesis
      using classify_file_Done[OF step[OF i]] by auto
  qed
  have outcome: "fst (update w ev s) = Inr () \<or>
          fst (update w ev s) = Inl CastError \<and>
          attachment_findOne oid (snd (update w ev s)) = Some doc"
  proof (cases "cast_attachments w ?emitted")
    case None
    then show ?thesis using refused by simp
  next
    case (Some stored)
    then show ?thesis using written[of stored] by simp
  qed
  have uncastable: "\<forall>i<length ?atts. \<forall>r v.
            generateContent w i (prompt (text_or_empty (?atts ! i))) = Reply r \<and>
            JSON_parse w (cleaned_output r) = Some v \<and>
            castNumber w (property ''confidence'' v) = None \<longrightarrow>
              fst (update w ev s) = Inl CastError \<and>
              attachment_findOne oid (snd (update w ev s)) = Some doc"
  proof (intro allI impI)
    fix i r v
    assume i: "i < length ?atts"
      and h: "generateContent w i (prompt (text_or_empty (?atts ! i))) = Reply r \<and>
              JSON_parse w (cleaned_output r) = Some v \<and>
              castNumber w (property ''confidence'' v) = None"
    have "castNumber w (confidence (?emitted ! i)) = None"
      using parsed[OF i, of r v] h by simp
    then have "cast_entry w (?emitted ! i) = None"
      by (rule cast_entry_refused)
    then have "cast_attachments w ?emitted = None"
      using cast_attachments_refused[of i ?emitted w] i len by simp
    then show "fst (update w ev s) = Inl CastError \<and>
              attachment_findOne oid (snd (update w ev s)) = Some doc"
      by (rule refused)
  qed
  have resolved: "\<exists>stored.
               attachment_findOne oid (snd (update w ev s)) = Some (doc\<lparr>att_attachments := stored\<rparr>) \<and>
               length stored = length ?atts \<and>
               (\<forall>i<length ?atts.
                  (engine_failed w i (?atts ! i) \<longrightarrow> confidence (stored ! i) = Some (JNumber 0)) \<and>
                  (\<forall>r v. generateContent w i (prompt (text_or_empty (?atts ! i))) = Reply r \<and>
                         JSON_parse w (cleaned_output r) = Some v \<longrightarrow>
                     castNumber w (property ''confidence'' v) = Some (confidence (stored ! i)) \<and>
                     (\<forall>q. property ''confidence'' v = Some (JNumber q) \<longrightarrow>
                        confidence (stored ! i) = Some (JNumber q) \<and>
                        confidence_in_range (confidence (stored ! i)) = (0 \<le> q \<and> q \<le> 1))))"
    if ok: "fst (update w ev s) = Inr ()"
  proof -
    obtain stored where cast: "cast_attachments w ?emitted = Some stored"
      using ok refused by (cases "cast_attachments w ?emitted") auto
    have doc': "attachment_findOne oid (snd (update w ev s)) = Some (doc\<lparr>att_attachments := stored\<rparr>)"
      using written[OF cast] by simp
    have len': "length stored = length ?atts"
      using cast_attachments_length[OF cast] len by simp
    have entry: "castNumber w (confidence (?emitted ! i)) = Some (confidence (stored ! i))"
      if "i < length ?atts" for i
      using cast_attachments_nth[OF cast, of i] that len cast_entry_confidence by simp
    have each: "(engine_failed w i (?atts ! i) \<longrightarrow> confidence (stored ! i) = Some (JNumber 0)) \<and>
                  (\<forall>r v. generateContent w i (prompt (text_or_empty (?atts ! i))) = Reply r \<and>
                         JSON_parse w (cleaned_output r) = Some v \<longrightarrow>
                     castNumber w (property ''confidence'' v) = Some (confidence (stored ! i)) \<and>
                     (\<forall>q. property ''confidence'' v = Some (JNumber q) \<longrightarrow>
                        confidence (stored ! i) = Some (JNumber q) \<and>
                        confidence_in_range (confidence (stored ! i)) = (0 \<le> q \<and> q \<le> 1)))"
      if i: "i < length ?atts" for i
    proof (intro conjI impI allI)
      assume f: "engine_failed w i (?atts ! i)"
      have "?emitted ! i =
              (?atts ! i)\<lparr>classification := Some (JString ''unknown''), confidence := Some (JNumber 0)\<rparr>"
        using step[OF i] engine_failed_step[OF f] by simp
      then have "castNumber w (Some (JNumber 0)) = Some (confidence (stored ! i))"
        using entry[OF i] by simp
      then show "confidence (stored ! i) = Some (JNumber 0)"
        by (simp add: castNumber_number)
    next
      fix r v
      assume h: "generateContent w i (prompt (text_or_empty (?atts ! i))) = Reply r \<and>
                 JSON_parse w (cleaned_output r) = Some v"
      show c: "castNumber w (property ''confidence'' v) = Some (confidence (stored ! i))"
        using parsed[OF i, of r v] h entry[OF i] by simp
      fix q
      assume q: "property ''confidence'' v = Some (JNumber q)"
      show s: "confidence (stored ! i) = Some (JNumber q)"
        using c q by (simp add: castNumber_number)
      show "confidence_in_range (confidence (stored ! i)) = (0 \<le> q \<and> q \<le> 1)"
        using s by (simp add: confidence_in_range_number)
    qed
    show ?thesis
      using doc' len' each by blast
  qed
  show ?thesis
    using outcome uncastable resolved by blast
qed

theorem stored_confidence_is_cast_engine_value_witness:
  \<open>generateContent sample_env 0 (prompt (text_or_empty att_a)) =
     Reply (Some ''{"type":"invoice","confidence":95}'') \<and>
   engine_failed sample_env 1 att_c \<and>
   processClassification sample_env (message_with ''id-1'' [att_a, att_c]) =
     Some (Inr [Redis_set ''redis:status:id-1''
                  (envelope_with ''id-1'' ''classification_completed''
                     [att_a\<lparr>classification := Some (JString ''invoice''), confidence := Some (JNumber 95)\<rparr>,
                      att_c\<lparr>classification := Some (JString ''unknown''), confidence := Some (JNumber 0)\<rparr>]) None,
                Publish ''event.pipeline''
                  (Envelope (envelope_with ''id-1'' ''classification_completed''
                     [att_a\<lparr>classification := Some (JString ''invoice''), confidence := Some (JNumber 95)\<rparr>,
                      att_c\<lparr>classification := Some (JString ''unknown''), confidence := Some (JNumber 0)\<rparr>]))]) \<and>
   fst (update sample_env
          (envelope_with ''id-1'' ''classification_completed''
             [att_a\<lparr>classification := Some (JString ''invoice''), confidence := Some (JNumber 95)\<rparr>,
              att_c\<lparr>classification := Some (JString ''unknown''), confidence := Some (JNumber 0)\<rparr>])
          linked_store) = Inr () \<and>
   (\<exists>stored.
      attachment_findOne 1
        (snd (update sample_env
                (envelope_with ''id-1'' ''classification_completed''
                   [att_a\<lparr>classification := Some (JString ''invoice''), confidence := Some (JNumber 95)\<rparr>,
                    att_c\<lparr>classification := Some (JString ''unknown''), confidence := Some (JNumber 0)\<rparr>])
                linked_store)) = Some \<lparr>att_oid = 1, att_attachments = stored\<rparr> \<and>
      length stored = 2 \<and>
      confidence (stored ! 0) = Some (JNumber 95) \<and>
      \<not> confidence_in_range (confidence (stored ! 0)) \<and>
      confidence (stored ! 1) = Some (JNumber 0))\<close>
proof -
  let ?m = "message_with ''id-1'' [att_a, att_c]"
  let ?ev = "envelope_with ''id-1'' ''classification_completed''
                   [att_a\<lparr>classification := Some (JString ''invoice''), confidence := Some (JNumber 95)\<rparr>,
                    att_c\<lparr>classification := Some (JString ''unknown''), confidence := Some (JNumber 0)\<rparr>]"
  let ?v = "JObject [(''type'', JString ''invoice''), (''confidence'', JNumber 95)]"
  have h1: "processClassification sample_env ?m =
              Some (Inr [Redis_set ''redis:status:id-1'' ?ev None, Publish ''event.pipeline'' (Envelope ?ev)])"
    by (simp add: classification_defs classification_sample_facts sample_env_def message_with_def
          envelope_with_def att_a_def att_c_def)
  have h2: "Publish ''event.pipeline'' (Envelope ?ev) \<in>
              set [Redis_set ''redis:status:id-1'' ?ev None, Publish ''event.pipeline'' (Envelope ?ev)]"
    by simp
  have h3: "submission_findOne (submission_id (metadata ?m)) linked_store = Some (hd (submissions linked_store))"
    by (simp add: submission_findOne_def linked_store_def message_with_def)
  have h4: "sub_attachments (hd (submissions linked_store)) = Some 1"
    by (simp add: linked_store_def)
  have h5: "attachment_findOne 1 linked_store = Some \<lparr>att_oid = 1, att_attachments = [att_a, att_b]\<rparr>"
    by (simp add: attachment_findOne_def linked_store_def)
  have atts: "attachments (metadata ?m) = [att_a, att_c]"
    by (simp add: message_with_def)
  have r0: \<open>generateContent sample_env 0 (prompt (text_or_empty att_a)) =
              Reply (Some ''{"type":"invoice","confidence":95}'')\<close>
    by (simp add: sample_env_def)
  have p0: \<open>JSON_parse sample_env (cleaned_output (Some ''{"type":"invoice","confidence":95}'')) = Some ?v\<close>
    by (simp add: sample_env_def cleaned_95 parse_reply_95)
  have c0: "property ''confidence'' ?v = Some (JNumber 95)"
    by (simp add: property_def)
  have f1: "engine_failed sample_env 1 att_c"
    by (simp add: engine_failed_def sample_env_def classification_sample_facts)
  have ok: "fst (update sample_env ?ev linked_store) = Inr ()"
    by (simp add: reconciler_defs envelope_with_def message_with_def linked_store_def att_a_def att_c_def)
  note applied = stored_confidence_is_cast_engine_value[OF h1 h2 h3 h4 h5]
  obtain stored where
    w: "attachment_findOne 1 (snd (update sample_env ?ev linked_store)) =
          Some (\<lparr>att_oid = 1, att_attachments = [att_a, att_b]\<rparr>\<lparr>att_attachments := stored\<rparr>)"
    and l: "length stored = length (attachments (metadata ?m))"
    and e: "\<forall>i<length (attachments (metadata ?m)).
                  (engine_failed sample_env i (attachments (metadata ?m) ! i) \<longrightarrow>
                     confidence (stored ! i) = Some (JNumber 0)) \<and>
                  (\<forall>r v. generateContent sample_env i (prompt (text_or_empty (attachments (metadata ?m) ! i))) =
                           Reply r \<and>
                         JSON_parse sample_env (cleaned_output r) = Some v \<longrightarrow>
                     castNumber sample_env (property ''confidence'' v) = Some (confidence (stored ! i)) \<and>
                     (\<forall>q. property ''confidence'' v = Some (JNumber q) \<longrightarrow>
                        confidence (stored ! i) = Some (JNumber q) \<and>
                        confidence_in_range (confidence (stored ! i)) = (0 \<le> q \<and> q \<le> 1)))"
    using applied[THEN conjunct2, THEN conjunct2] ok by blast
  have i0: "0 < length (attachments (metadata ?m))" and i1: "1 < length (attachments (metadata ?m))"
    by (simp_all add: atts)
  have n0: "attachments (metadata ?m) ! 0 = att_a" and n1: "attachments (metadata ?m) ! 1 = att_c"
    by (simp_all add: atts)
  note e0 = e[rule_format, OF i0, unfolded n0]
  note e1 = e[rule_format, OF i1, unfolded n1]
  have s0: "confidence (stored ! 0) = Some (JNumber 95) \<and>
            confidence_in_range (confidence (stored ! 0)) = (0 \<le> (95::rat) \<and> (95::rat) \<le> 1)"
    using e0[THEN conjunct2, rule_format, of "Some ''{\"type\":\"invoice\",\"confidence\":95}''" ?v,
             THEN conjunct2, rule_format, of 95] r0 p0 c0
    by blast
  have "confidence_in_range (confidence (stored ! 0)) = (0 \<le> (95::rat) \<and> (95::rat) \<le> 1)"
    using s0 by (rule conjunct2)
  then have out: "\<not> confidence_in_range (confidence (stored ! 0))"
    by simp
  have s1: "confidence (stored ! 1) = Some (JNumber 0)"
    using e1[THEN conjunct1] f1 by blast
  have l2: "length stored = 2"
    using l unfolding atts by simp
  have w2: "attachment_findOne 1 (snd (update sample_env ?ev linked_store)) =
              Some \<lparr>att_oid = 1, att_attachments = stored\<rparr>"
    using w by simp
  show ?thesis
    using r0 f1 h1 ok w2 l2 s0 out s1 by blast
qed

end
